theory Spec2Isabelle
  imports Complex_Main "HOL-Library.AList" "HOL-Library.Log_Nat"
begin

section \<open>Shared data: query parameters, exceptions\<close>

text \<open>
  The program is one Python class, \<^verbatim>\<open>KnowBe4ReportGenerator\<close> (kb4_train.py). Its
  core is \<^verbatim>\<open>_paginated_get\<close>, which turns a page-indexed HTTP collection into one list,
  and \<^verbatim>\<open>analyse_training_data\<close>, which classifies users as untrained and computes the
  metrics. \<^verbatim>\<open>generate_report\<close> calls both inside one \<^verbatim>\<open>try\<close> block.

  A Python \<^verbatim>\<open>dict\<close> with string keys is an association list in insertion order;
  \<^verbatim>\<open>d.update({k: v})\<close> and \<^verbatim>\<open>d[k] = v\<close> are \<^const>\<open>AList.update\<close>, which keeps the
  position of a key that is already there and appends a new one.
\<close>

datatype pval = PStr string | PInt int

type_synonym pdict = "(string \<times> pval) list"

text \<open>
  The exceptions that can leave the modelled functions: \<^verbatim>\<open>UnboundLocalError\<close> (a local
  variable read before it was assigned) and \<^verbatim>\<open>ValueError\<close> (raised by
  \<^verbatim>\<open>datetime.strptime\<close> on a string that does not match the format).
\<close>

datatype exn = UnboundLocalError | ValueError

section \<open>\<^verbatim>\<open>_paginated_get\<close>\<close>

text \<open>
  One call of \<^verbatim>\<open>requests.get(...)\<close> followed by \<^verbatim>\<open>raise_for_status()\<close> and
  \<^verbatim>\<open>response.json()\<close> ends in one of four ways:
  \<^item> \<open>RequestFailed\<close>: \<^verbatim>\<open>requests.get\<close> itself raised a \<^verbatim>\<open>RequestException\<close> (timeout,
    connection failure), so the assignment \<^verbatim>\<open>response = ...\<close> never happened;
  \<^item> \<open>BadStatus\<close>: a response arrived and \<^verbatim>\<open>raise_for_status\<close> raised \<^verbatim>\<open>HTTPError\<close>;
  \<^item> \<open>InvalidJson\<close>: the body is not JSON (\<^verbatim>\<open>JSONDecodeError\<close>);
  \<^item> \<open>Json data\<close>: the body decoded to the list \<open>data\<close> of records.
  The remote API is a parameter \<open>api\<close>: it maps the endpoint and the query parameters
  of a request to its outcome. Records are of any type \<open>'r\<close>.
\<close>

datatype 'r http_outcome = RequestFailed | BadStatus | InvalidJson | Json "'r list"

text \<open>
  The state of the \<^verbatim>\<open>while True\<close> loop: the locals \<^verbatim>\<open>all_results\<close> and \<^verbatim>\<open>page\<close>, whether
  the local \<^verbatim>\<open>response\<close> has been assigned yet, the contents of the dict object the
  caller passed as \<^verbatim>\<open>params\<close> (\<open>None\<close> for Python's \<^verbatim>\<open>None\<close>), and the query parameters
  of the requests sent so far.
\<close>

record 'r fetch_state =
  all_results :: "'r list"
  page :: int
  response_bound :: bool
  params_obj :: "pdict option"
  sent :: "pdict list"

text \<open>
  What a call leaves behind: the returned list or the exception that escaped, the
  caller's dict object after the call, and the requests that were sent.
\<close>

record 'r fetch_result =
  returned :: "exn + 'r list"
  params_after :: "pdict option"
  requests :: "pdict list"

definition per_page :: int where
  "per_page = 500"

text \<open>Python truthiness of \<^verbatim>\<open>params\<close>: \<^verbatim>\<open>None\<close> and the empty dict are false.\<close>

fun truthy_dict :: "pdict option \<Rightarrow> bool" where
  "truthy_dict None = False"
| "truthy_dict (Some d) = (d \<noteq> [])"

text \<open>
  \<^verbatim>\<open>request_params = params or {}\<close>: when \<^verbatim>\<open>params\<close> is truthy the name
  \<^verbatim>\<open>request_params\<close> is bound to the caller's own dict object, otherwise to a fresh
  empty dict. \<^verbatim>\<open>request_params.update({'page': page, 'per_page': per_page})\<close> then
  writes into whichever object that is.
\<close>

definition request_params_of :: "pdict option \<Rightarrow> int \<Rightarrow> pdict" where
  "request_params_of p pg =
     AList.update ''per_page'' (PInt per_page)
       (AList.update ''page'' (PInt pg) (case p of None \<Rightarrow> [] | Some d \<Rightarrow> d))"

definition params_obj_after :: "pdict option \<Rightarrow> int \<Rightarrow> pdict option" where
  "params_obj_after p pg = (if truthy_dict p then Some (request_params_of p pg) else p)"

definition finish :: "'r fetch_state \<Rightarrow> pdict \<Rightarrow> exn + 'r list \<Rightarrow> 'r fetch_result" where
  "finish st rp r =
     \<lparr>returned = r,
      params_after = params_obj_after (params_obj st) (page st),
      requests = sent st @ [rp]\<rparr>"

text \<open>
  One iteration per unfolding. The handler of \<^verbatim>\<open>requests.RequestException\<close> reads
  \<^verbatim>\<open>response.text\<close>: when \<^verbatim>\<open>requests.get\<close> raised and no earlier iteration assigned
  \<^verbatim>\<open>response\<close>, that read raises \<^verbatim>\<open>UnboundLocalError\<close> inside the handler, and nothing
  catches it. The loop has no bound of its own, so the function is partial: \<open>None\<close>
  stands for a call that never returns.
\<close>

partial_function (option) paginated_loop ::
  "(string \<Rightarrow> pdict \<Rightarrow> 'r http_outcome) \<Rightarrow> string \<Rightarrow> 'r fetch_state \<Rightarrow> 'r fetch_result option"
where
  "paginated_loop api endpoint st =
     (let rp = request_params_of (params_obj st) (page st) in
      case api endpoint rp of
        RequestFailed \<Rightarrow>
          if response_bound st then Some (finish st rp (Inr (all_results st)))
          else Some (finish st rp (Inl UnboundLocalError))
      | BadStatus \<Rightarrow> Some (finish st rp (Inr (all_results st)))
      | InvalidJson \<Rightarrow> Some (finish st rp (Inr (all_results st)))
      | Json data \<Rightarrow>
          if data = [] then Some (finish st rp (Inr (all_results st)))
          else if int (length data) < per_page
            then Some (finish st rp (Inr (all_results st @ data)))
          else paginated_loop api endpoint
                 \<lparr>all_results = all_results st @ data,
                  page = page st + 1,
                  response_bound = True,
                  params_obj = params_obj_after (params_obj st) (page st),
                  sent = sent st @ [rp]\<rparr>)"

definition paginated_get ::
  "(string \<Rightarrow> pdict \<Rightarrow> 'r http_outcome) \<Rightarrow> string \<Rightarrow> pdict option \<Rightarrow> 'r fetch_result option"
where
  "paginated_get api endpoint params =
     paginated_loop api endpoint
       \<lparr>all_results = [], page = 1, response_bound = False, params_obj = params, sent = []\<rparr>"

section \<open>Dates and Python floats\<close>

text \<open>
  A naive \<^verbatim>\<open>datetime\<close> object. Python compares two of them field by field, from the
  year down to the microsecond; \<open>dt_less\<close> is that comparison (\<^verbatim>\<open><\<close>).
\<close>

record datetime =
  year :: nat
  month :: nat
  day :: nat
  hour :: nat
  minute :: nat
  second :: nat
  microsecond :: nat

definition dt_fields :: "datetime \<Rightarrow> nat list" where
  "dt_fields d = [year d, month d, day d, hour d, minute d, second d, microsecond d]"

fun fields_less :: "nat list \<Rightarrow> nat list \<Rightarrow> bool" where
  "fields_less (x # xs) (y # ys) = (x < y \<or> (x = y \<and> fields_less xs ys))"
| "fields_less xs ys = False"

definition dt_less :: "datetime \<Rightarrow> datetime \<Rightarrow> bool" where
  "dt_less a b = fields_less (dt_fields a) (dt_fields b)"

text \<open>
  \<^verbatim>\<open>(total_users - total_untrained) / total_users\<close> is Python's true division of two
  integers and gives a \<^verbatim>\<open>float\<close>, an IEEE-754 binary64 number: the quotient rounded to
  the nearest number with a 53-bit significand, ties to the even significand. Binary64
  numbers are modelled as the rationals they denote. \<open>rne\<close> rounds a rational to the
  nearest integer, ties to even; \<open>binade x\<close> is the exponent \<open>e\<close> with
  \<open>2^e \<le> |x| < 2^(e+1)\<close>; \<open>to_double\<close> rounds to 53 significant bits. The exponent
  range of binary64 is not modelled: the values here come from list lengths and lie far
  from overflow and underflow.
\<close>

definition rne :: "rat \<Rightarrow> int" where
  "rne x =
     (let f = \<lfloor>x\<rfloor>; r = x - of_int f
      in if r < 1 / 2 then f else if 1 / 2 < r then f + 1 else if even f then f else f + 1)"

definition pow2 :: "int \<Rightarrow> rat" where
  "pow2 e = (if 0 \<le> e then 2 ^ nat e else 1 / 2 ^ nat (- e))"

definition binade :: "rat \<Rightarrow> int" where
  "binade x =
     (let (p, q) = quotient_of \<bar>x\<bar>; d = bitlen p - bitlen q
      in if pow2 d \<le> \<bar>x\<bar> then d else d - 1)"

definition to_double :: "rat \<Rightarrow> rat" where
  "to_double x =
     (if x = 0 then 0
      else let u = pow2 (binade x - 52) in of_int (rne (x / u)) * u)"

text \<open>\<^verbatim>\<open>a / b\<close> on integers, \<^verbatim>\<open>x * y\<close> on floats, and \<^verbatim>\<open>round(x, 2)\<close>.\<close>

definition int_truediv :: "int \<Rightarrow> int \<Rightarrow> rat" where
  "int_truediv a b = to_double (of_int a / of_int b)"

definition float_mul :: "rat \<Rightarrow> rat \<Rightarrow> rat" where
  "float_mul x y = to_double (x * y)"

text \<open>
  \<^verbatim>\<open>round(x, 2)\<close> rounds the exact value of the float to two decimals, ties to even, and
  returns the float nearest to that decimal. On the integer \<^verbatim>\<open>0\<close> it returns \<^verbatim>\<open>0\<close>, which
  is what this definition gives as well.
\<close>

definition py_round2 :: "rat \<Rightarrow> rat" where
  "py_round2 x = to_double (of_int (rne (x * 100)) / 100)"

section \<open>\<^verbatim>\<open>analyse_training_data\<close>\<close>

text \<open>
  The records the API returns, as far as the analysis reads them. A user is read with
  \<^verbatim>\<open>user['id']\<close>, \<^verbatim>\<open>['first_name']\<close>, \<^verbatim>\<open>['last_name']\<close>, \<^verbatim>\<open>['email']\<close> (keys that must be
  there) and \<^verbatim>\<open>.get('manager_name', 'N/A')\<close>, \<^verbatim>\<open>.get(field, 'N/A')\<close> (keys that may be
  missing); \<open>other_fields\<close> holds the remaining keys. An enrollment is read with
  \<^verbatim>\<open>enrollment['user']['id']\<close>, \<^verbatim>\<open>['campaign_name']\<close>, \<^verbatim>\<open>.get('due_date')\<close> and
  \<^verbatim>\<open>.get('status')\<close>; \<open>None\<close> is a missing key or a JSON null.
\<close>

record user =
  user_id :: int
  first_name :: string
  last_name :: string
  email :: string
  manager_name :: "string option"
  other_fields :: pdict

record enrollment =
  enr_user_id :: int
  campaign_name :: string
  due_date :: "string option"
  status :: "string option"

record campaign =
  name :: string
  campaign_id :: int

text \<open>
  What the analysis takes from outside the repository: \<open>strptime s\<close> is
  \<^verbatim>\<open>datetime.strptime(s, '%Y-%m-%dT%H:%M:%SZ')\<close>, with \<open>None\<close> where the library raises
  \<^verbatim>\<open>ValueError\<close>; \<open>now_at i\<close> is the value \<^verbatim>\<open>datetime.now()\<close> has while the loop examines
  the enrollment at position \<open>i\<close>; \<open>set_iter\<close> is the order in which Python iterates
  over a set of ids, which the language leaves open.
\<close>

record py_env =
  strptime :: "string \<Rightarrow> datetime option"
  now_at :: "nat \<Rightarrow> datetime"
  set_iter :: "int set \<Rightarrow> int list"

text \<open>The locals the loop over the enrollments updates.\<close>

record analysis_state =
  untrained_users :: "int set"
  user_enrollments :: "int \<rightharpoonup> enrollment list"

text \<open>\<^verbatim>\<open>user_lookup = {user['id']: user for user in users}\<close>: a later user overwrites.\<close>

definition user_lookup :: "user list \<Rightarrow> (int \<rightharpoonup> user)" where
  "user_lookup users = fold (\<lambda>u m. m(user_id u \<mapsto> u)) users Map.empty"

text \<open>
  The body of \<^verbatim>\<open>for enrollment in enrollments\<close>. \<^verbatim>\<open>if due_date:\<close> is false for \<^verbatim>\<open>None\<close>
  and for the empty string. \<open>now\<close> is read only on the branch that compares.
\<close>

definition add_untrained :: "int \<Rightarrow> analysis_state \<Rightarrow> analysis_state" where
  "add_untrained uid st = st\<lparr>untrained_users := insert uid (untrained_users st)\<rparr>"

definition analyse_step ::
  "(string \<Rightarrow> datetime option) \<Rightarrow> string list \<Rightarrow> datetime \<Rightarrow> analysis_state \<Rightarrow> enrollment
     \<Rightarrow> exn + analysis_state"
where
  "analyse_step parse mandatory_campaigns now st0 e =
     (let uid = enr_user_id e;
          st = st0\<lparr>user_enrollments := (user_enrollments st0)
                 (uid \<mapsto> (case user_enrollments st0 uid of None \<Rightarrow> [] | Some l \<Rightarrow> l) @ [e])\<rparr>
      in if campaign_name e \<in> set mandatory_campaigns then
           if status e \<notin> {Some ''Completed'', Some ''Passed''} then
             (case due_date e of
                None \<Rightarrow> Inr (add_untrained uid st)
              | Some s \<Rightarrow>
                  if s \<noteq> [] then
                    (case parse s of
                       None \<Rightarrow> Inl ValueError
                     | Some d \<Rightarrow> if dt_less d now then Inr (add_untrained uid st) else Inr st)
                  else Inr (add_untrained uid st))
           else Inr st
         else Inr st)"

fun analyse_loop ::
  "(string \<Rightarrow> datetime option) \<Rightarrow> string list \<Rightarrow> (nat \<Rightarrow> datetime) \<Rightarrow> nat \<Rightarrow> analysis_state
     \<Rightarrow> enrollment list \<Rightarrow> exn + analysis_state"
where
  "analyse_loop parse mc clock i st [] = Inr st"
| "analyse_loop parse mc clock i st (e # es) =
     (case analyse_step parse mc (clock i) st e of
        Inl x \<Rightarrow> Inl x
      | Inr st' \<Rightarrow> analyse_loop parse mc clock (Suc i) st' es)"

definition initial_state :: analysis_state where
  "initial_state = \<lparr>untrained_users = {}, user_enrollments = Map.empty\<rparr>"

text \<open>The set \<^verbatim>\<open>untrained_users\<close> when the loop has run, or the exception it raised.\<close>

definition untrained_set ::
  "py_env \<Rightarrow> enrollment list \<Rightarrow> string list \<Rightarrow> exn + int set"
where
  "untrained_set env enrollments mandatory_campaigns =
     map_sum id untrained_users
       (analyse_loop (strptime env) mandatory_campaigns (now_at env) 0 initial_state enrollments)"

text \<open>\<^verbatim>\<open>d.get(key)\<close> on a user record, and one row of \<^verbatim>\<open>untrained_user_data\<close>.\<close>

definition user_get :: "user \<Rightarrow> string \<Rightarrow> pval option" where
  "user_get u k =
     (if k = ''id'' then Some (PInt (user_id u))
      else if k = ''first_name'' then Some (PStr (first_name u))
      else if k = ''last_name'' then Some (PStr (last_name u))
      else if k = ''email'' then Some (PStr (email u))
      else if k = ''manager_name'' then map_option PStr (manager_name u)
      else map_of (other_fields u) k)"

definition get_or_na :: "user \<Rightarrow> string \<Rightarrow> pval" where
  "get_or_na u k = (case user_get u k of None \<Rightarrow> PStr ''N/A'' | Some v \<Rightarrow> v)"

definition untrained_row :: "string list \<Rightarrow> user \<Rightarrow> pdict" where
  "untrained_row optional_user_fields u =
     fold (\<lambda>field row. AList.update field (get_or_na u field) row) optional_user_fields
       [(''Name'', PStr (first_name u @ '' '' @ last_name u)),
        (''Email'', PStr (email u)),
        (''Manager'', get_or_na u ''manager_name'')]"

record metrics =
  Total_Users :: nat
  Total_Untrained_Users :: nat
  Completion_Rate :: rat

record report =
  report_metrics :: metrics
  untrained_user_data :: "pdict list"

text \<open>
  \<^verbatim>\<open>((total_users - total_untrained) / total_users) * 100 if total_users else 0\<close>, on
  Python's unbounded integers.
\<close>

definition completion_rate :: "nat \<Rightarrow> nat \<Rightarrow> rat" where
  "completion_rate total_users total_untrained =
     (if total_users \<noteq> 0
      then float_mul (int_truediv (int total_users - int total_untrained) (int total_users)) 100
      else 0)"

definition build_report ::
  "py_env \<Rightarrow> string list \<Rightarrow> user list \<Rightarrow> int set \<Rightarrow> report"
where
  "build_report env optional_user_fields users untrained =
     \<lparr>report_metrics =
        \<lparr>Total_Users = length users,
         Total_Untrained_Users = card untrained,
         Completion_Rate = py_round2 (completion_rate (length users) (card untrained))\<rparr>,
      untrained_user_data =
        List.map_filter
          (\<lambda>uid. map_option (untrained_row optional_user_fields) (user_lookup users uid))
          (set_iter env untrained)\<rparr>"

definition analyse_training_data ::
  "py_env \<Rightarrow> string list \<Rightarrow> user list \<Rightarrow> enrollment list \<Rightarrow> string list \<Rightarrow> exn + report"
where
  "analyse_training_data env optional_user_fields users enrollments mandatory_campaigns =
     (case untrained_set env enrollments mandatory_campaigns of
        Inl x \<Rightarrow> Inl x
      | Inr untrained \<Rightarrow> Inr (build_report env optional_user_fields users untrained))"

section \<open>\<^verbatim>\<open>generate_report\<close>\<close>

text \<open>
  The configuration read in \<^verbatim>\<open>__init__\<close> and the three collections of the remote API,
  each with the type of its records. The callers of \<^verbatim>\<open>_paginated_get\<close> pass dict
  literals and use only the returned list.
\<close>

record config =
  cfg_mandatory_campaigns :: "string list"
  cfg_optional_user_fields :: "string list"

record api =
  users_api :: "string \<Rightarrow> pdict \<Rightarrow> user http_outcome"
  campaigns_api :: "string \<Rightarrow> pdict \<Rightarrow> campaign http_outcome"
  enrollments_api :: "string \<Rightarrow> pdict \<Rightarrow> enrollment http_outcome"

definition get_users :: "api \<Rightarrow> user fetch_result option" where
  "get_users a = paginated_get (users_api a) ''/users'' (Some [(''status'', PStr ''active'')])"

definition get_training_campaigns :: "api \<Rightarrow> campaign fetch_result option" where
  "get_training_campaigns a = paginated_get (campaigns_api a) ''/training/campaigns'' None"

text \<open>\<^verbatim>\<open>params = {'campaign_id': campaign_id} if campaign_id else {}\<close>\<close>

definition get_training_enrollments :: "api \<Rightarrow> int option \<Rightarrow> enrollment fetch_result option" where
  "get_training_enrollments a cid =
     paginated_get (enrollments_api a) ''/training/enrollments''
       (Some (case cid of None \<Rightarrow> []
              | Some c \<Rightarrow> if c \<noteq> 0 then [(''campaign_id'', PInt c)] else []))"

text \<open>
  The statements of the \<^verbatim>\<open>try\<close> block run in sequence: a call that never returns
  (\<open>None\<close>) or that raises (\<open>Inl\<close>) ends the sequence there.
\<close>

definition after_fetch ::
  "'r fetch_result option \<Rightarrow> ('r list \<Rightarrow> (exn + 'b) option) \<Rightarrow> (exn + 'b) option"
where
  "after_fetch f k =
     (case f of
        None \<Rightarrow> None
      | Some r \<Rightarrow> (case returned r of Inl x \<Rightarrow> Some (Inl x) | Inr xs \<Rightarrow> k xs))"

fun fetch_enrollments ::
  "api \<Rightarrow> campaign list \<Rightarrow> enrollment list \<Rightarrow> (exn + enrollment list) option"
where
  "fetch_enrollments a [] all_enrollments = Some (Inr all_enrollments)"
| "fetch_enrollments a (c # cs) all_enrollments =
     after_fetch (get_training_enrollments a (Some (campaign_id c)))
       (\<lambda>campaign_enrollments. fetch_enrollments a cs (all_enrollments @ campaign_enrollments))"

text \<open>The data the \<^verbatim>\<open>try\<close> block hands to the analysis.\<close>

definition fetch_inputs :: "config \<Rightarrow> api \<Rightarrow> (exn + user list \<times> enrollment list) option" where
  "fetch_inputs cfg a =
     after_fetch (get_users a) (\<lambda>users.
     after_fetch (get_training_campaigns a) (\<lambda>all_campaigns.
       (case fetch_enrollments a
               (filter (\<lambda>c. name c \<in> set (cfg_mandatory_campaigns cfg)) all_campaigns) [] of
          None \<Rightarrow> None
        | Some (Inl x) \<Rightarrow> Some (Inl x)
        | Some (Inr all_enrollments) \<Rightarrow> Some (Inr (users, all_enrollments)))))"

text \<open>
  What a run leaves behind: the metrics file and the untrained-users file it wrote (their
  contents; \<open>None\<close> when the file was not written) and the exception that
  \<^verbatim>\<open>except Exception\<close> caught and logged. Writing a file is taken to succeed.
\<close>

record run_outcome =
  metrics_file :: "metrics option"
  untrained_file :: "pdict list option"
  error_logged :: "exn option"

definition write_files :: "report \<Rightarrow> run_outcome" where
  "write_files rep =
     \<lparr>metrics_file = Some (report_metrics rep),
      untrained_file = (if untrained_user_data rep \<noteq> [] then Some (untrained_user_data rep) else None),
      error_logged = None\<rparr>"

definition caught :: "exn \<Rightarrow> run_outcome" where
  "caught x = \<lparr>metrics_file = None, untrained_file = None, error_logged = Some x\<rparr>"

definition generate_report :: "config \<Rightarrow> api \<Rightarrow> py_env \<Rightarrow> run_outcome option" where
  "generate_report cfg a env =
     (case fetch_inputs cfg a of
        None \<Rightarrow> None
      | Some (Inl x) \<Rightarrow> Some (caught x)
      | Some (Inr (users, all_enrollments)) \<Rightarrow>
          (case analyse_training_data env (cfg_optional_user_fields cfg) users all_enrollments
                  (cfg_mandatory_campaigns cfg) of
             Inl x \<Rightarrow> Some (caught x)
           | Inr rep \<Rightarrow> Some (write_files rep)))"

section \<open>The rule and the rate in the specification's words\<close>

text \<open>
  The classification rule as the specification writes it: the status is not one of
  "Completed" and "Passed", and either no due-date is present, or a due-date is present and
  has elapsed at the clock value \<open>now\<close>. A due-date is present when the field holds a
  non-empty string, which is what \<^verbatim>\<open>if due_date:\<close> tests.
\<close>

definition due_date_present :: "enrollment \<Rightarrow> bool" where
  "due_date_present e = (case due_date e of None \<Rightarrow> False | Some s \<Rightarrow> s \<noteq> [])"

definition due_date_elapsed :: "(string \<Rightarrow> datetime option) \<Rightarrow> datetime \<Rightarrow> enrollment \<Rightarrow> bool" where
  "due_date_elapsed parse now e =
     (case due_date e of
        None \<Rightarrow> False
      | Some s \<Rightarrow> (case parse s of None \<Rightarrow> False | Some d \<Rightarrow> dt_less d now))"

definition spec_untrained_rule ::
  "(string \<Rightarrow> datetime option) \<Rightarrow> datetime \<Rightarrow> enrollment \<Rightarrow> bool"
where
  "spec_untrained_rule parse now e =
     (status e \<notin> {Some ''Completed'', Some ''Passed''} \<and>
      (\<not> due_date_present e \<or> (due_date_present e \<and> due_date_elapsed parse now e)))"

text \<open>
  The ids the rule marks over a whole list: those of the enrollments in a mandatory
  campaign that satisfy the rule at the clock value of their position.
\<close>

definition spec_untrained_ids ::
  "py_env \<Rightarrow> enrollment list \<Rightarrow> string list \<Rightarrow> int set"
where
  "spec_untrained_ids env enrollments mc =
     (\<lambda>i. enr_user_id (enrollments ! i)) `
       {i \<in> {..<length enrollments}.
          campaign_name (enrollments ! i) \<in> set mc \<and>
          spec_untrained_rule (strptime env) (now_at env i) (enrollments ! i)}"

text \<open>
  The completion rate as the specification writes it, in exact arithmetic:
  \<open>(Total Users - Total Untrained Users) / Total Users \<times> 100\<close>, then rounded to 2
  decimal places, and 0 when Total Users is 0. The rounding is to the nearest multiple
  of 1/100, a tie going to the even one, which is the rule of Python's \<^verbatim>\<open>round\<close>.
\<close>

definition exact_rate :: "nat \<Rightarrow> nat \<Rightarrow> rat" where
  "exact_rate t u = (if t = 0 then 0 else (of_int (int t - int u) / of_int (int t)) * 100)"

definition spec_completion_rate :: "nat \<Rightarrow> nat \<Rightarrow> rat" where
  "spec_completion_rate t u = of_int (rne (exact_rate t u * 100)) / 100"

text \<open>The exact rate lies halfway between two multiples of 1/100.\<close>

definition rounding_tie :: "nat \<Rightarrow> nat \<Rightarrow> bool" where
  "rounding_tie t u = (frac (exact_rate t u * 100) = 1 / 2)"

section \<open>Sample inputs\<close>

text \<open>
  A parser for the sample runs: it accepts the zero-padded 20-character form
  \<^verbatim>\<open>YYYY-MM-DDTHH:MM:SSZ\<close> of a valid date and time, on which it agrees with
  \<^verbatim>\<open>datetime.strptime(s, '%Y-%m-%dT%H:%M:%SZ')\<close>, and rejects every other string.
\<close>

definition digit_of :: "char \<Rightarrow> nat option" where
  "digit_of c =
     (let n = (of_char c :: nat) in if 48 \<le> n \<and> n \<le> 57 then Some (n - 48) else None)"

fun number_of :: "nat \<Rightarrow> string \<Rightarrow> nat option" where
  "number_of acc [] = Some acc"
| "number_of acc (c # cs) =
     (case digit_of c of None \<Rightarrow> None | Some d \<Rightarrow> number_of (10 * acc + d) cs)"

definition leap_year :: "nat \<Rightarrow> bool" where
  "leap_year y = (y mod 4 = 0 \<and> (y mod 100 \<noteq> 0 \<or> y mod 400 = 0))"

definition days_in_month :: "nat \<Rightarrow> nat \<Rightarrow> nat" where
  "days_in_month y m =
     (if m = 2 then (if leap_year y then 29 else 28)
      else if m \<in> {4, 6, 9, 11} then 30 else 31)"

definition sample_strptime :: "string \<Rightarrow> datetime option" where
  "sample_strptime s =
     (if length s = 20 \<and> s ! 4 = CHR ''-'' \<and> s ! 7 = CHR ''-'' \<and> s ! 10 = CHR ''T'' \<and>
         s ! 13 = CHR '':'' \<and> s ! 16 = CHR '':'' \<and> s ! 19 = CHR ''Z''
      then
        (case (number_of 0 (take 4 s), number_of 0 (take 2 (drop 5 s)),
               number_of 0 (take 2 (drop 8 s)), number_of 0 (take 2 (drop 11 s)),
               number_of 0 (take 2 (drop 14 s)), number_of 0 (take 2 (drop 17 s))) of
           (Some y, Some mo, Some d, Some h, Some mi, Some sec) \<Rightarrow>
             if 1 \<le> y \<and> 1 \<le> mo \<and> mo \<le> 12 \<and> 1 \<le> d \<and> d \<le> days_in_month y mo \<and>
                h < 24 \<and> mi < 60 \<and> sec < 60
             then Some \<lparr>year = y, month = mo, day = d, hour = h, minute = mi, second = sec,
                        microsecond = 0\<rparr>
             else None
         | _ \<Rightarrow> None)
      else None)"



definition short_page_api :: "string \<Rightarrow> pdict \<Rightarrow> nat http_outcome" where
  "short_page_api ep rp = Json [10, 20, 30]"

definition failing_api :: "string \<Rightarrow> pdict \<Rightarrow> nat http_outcome" where
  "failing_api ep rp = RequestFailed"

definition active_filter :: pdict where
  "active_filter = [(''status'', PStr ''active'')]"


text \<open>
  An enrollment on which the loop body raises: it is in a mandatory campaign, its status
  is not a success, and its due-date is a non-empty string that the parser rejects.
\<close>

definition malformed_due_date ::
  "(string \<Rightarrow> datetime option) \<Rightarrow> string list \<Rightarrow> enrollment \<Rightarrow> bool"
where
  "malformed_due_date parse mc e =
     (campaign_name e \<in> set mc \<and> status e \<notin> {Some ''Completed'', Some ''Passed''} \<and>
      (case due_date e of None \<Rightarrow> False | Some s \<Rightarrow> s \<noteq> [] \<and> parse s = None))"

text \<open>Sample data: a clock that stands at 2024-01-01 00:00:00, one user, enrollments.\<close>

definition sample_now :: datetime where
  "sample_now =
     \<lparr>year = 2024, month = 1, day = 1, hour = 0, minute = 0, second = 0, microsecond = 0\<rparr>"

definition sample_env :: py_env where
  "sample_env =
     \<lparr>strptime = sample_strptime, now_at = (\<lambda>i. sample_now), set_iter = sorted_list_of_set\<rparr>"

definition alice :: user where
  "alice =
     \<lparr>user_id = 1, first_name = ''A'', last_name = ''B'', email = ''a@x.com'',
      manager_name = None, other_fields = []\<rparr>"

definition sample_enrollment :: "int \<Rightarrow> string \<Rightarrow> string option \<Rightarrow> enrollment" where
  "sample_enrollment uid st due =
     \<lparr>enr_user_id = uid, campaign_name = ''Security101'', due_date = due, status = Some st\<rparr>"

definition overdue_enrollment :: enrollment where
  "overdue_enrollment = sample_enrollment 1 ''Failed'' (Some ''2000-01-01T00:00:00Z'')"

text \<open>
  A due-date the loop body can read without raising: missing, null or empty, or a string
  the parser accepts.
\<close>

definition due_date_readable :: "(string \<Rightarrow> datetime option) \<Rightarrow> enrollment \<Rightarrow> bool" where
  "due_date_readable parse e =
     (case due_date e of None \<Rightarrow> True | Some s \<Rightarrow> s = [] \<or> parse s \<noteq> None)"

definition due_now_enrollment :: enrollment where
  "due_now_enrollment = sample_enrollment 1 ''In Progress'' (Some ''2024-01-01T00:00:00Z'')"

definition just_before_2024 :: datetime where
  "just_before_2024 =
     \<lparr>year = 2023, month = 12, day = 31, hour = 23, minute = 59, second = 59,
      microsecond = 999999\<rparr>"

definition late_enrollment :: enrollment where
  "late_enrollment = sample_enrollment 1 ''In Progress'' (Some ''2000-01-01T00:00:00Z'')"

definition completed_enrollment :: enrollment where
  "completed_enrollment = sample_enrollment 1 ''Completed'' (Some ''2000-01-01T00:00:00Z'')"

definition completed_garbage_enrollment :: enrollment where
  "completed_garbage_enrollment = sample_enrollment 1 ''Completed'' (Some ''not-a-date'')"

definition unknown_user_enrollment :: enrollment where
  "unknown_user_enrollment = sample_enrollment 2 ''Failed'' None"

definition other_unknown_user_enrollment :: enrollment where
  "other_unknown_user_enrollment = sample_enrollment 3 ''Failed'' None"

text \<open>A configuration and a remote API for a sample run of \<^verbatim>\<open>generate_report\<close>.\<close>

definition garbage_enrollment :: enrollment where
  "garbage_enrollment = sample_enrollment 1 ''Failed'' (Some ''not-a-date'')"

definition empty_due_enrollment :: enrollment where
  "empty_due_enrollment = sample_enrollment 1 ''Failed'' (Some [])"

definition sample_config :: config where
  "sample_config =
     \<lparr>cfg_mandatory_campaigns = [''Security101''], cfg_optional_user_fields = []\<rparr>"

definition sample_api :: api where
  "sample_api =
     \<lparr>users_api = (\<lambda>ep rp. Json [alice]),
      campaigns_api = (\<lambda>ep rp. Json [\<lparr>name = ''Security101'', campaign_id = 7\<rparr>]),
      enrollments_api = (\<lambda>ep rp. Json [garbage_enrollment])\<rparr>"

text \<open>
  A staff of \<open>n\<close> users with the ids 0 to \<open>n - 1\<close>, and for the first \<open>m\<close> of them an
  enrollment in the mandatory campaign with status "Failed" and no due-date.
\<close>

definition sample_user :: "nat \<Rightarrow> user" where
  "sample_user i =
     \<lparr>user_id = int i, first_name = ''U'', last_name = ''N'', email = ''u@x.com'',
      manager_name = None, other_fields = []\<rparr>"

definition staff :: "nat \<Rightarrow> user list" where
  "staff n = map sample_user [0..<n]"

definition failed_enrollments :: "nat \<Rightarrow> enrollment list" where
  "failed_enrollments m = map (\<lambda>i. sample_enrollment (int i) ''Failed'' None) [0..<m]"
section \<open>Properties of \<^verbatim>\<open>_paginated_get\<close>\<close>

lemma update_page_again:
  "AList.update ''per_page'' v
     (AList.update ''page'' b (AList.update ''per_page'' v (AList.update ''page'' a d)))
   = AList.update ''per_page'' v (AList.update ''page'' b d)"
  by (induction d) auto

text \<open>
  The dict the caller passed is written in place, so the next iteration starts from the
  dict the last one left; the parameters it sends are the same as if it had started from
  the caller's original dict.
\<close>

lemma request_params_of_after [simp]:
  "request_params_of (params_obj_after p pg) pg' = request_params_of p pg'"
proof (cases "truthy_dict p")
  case True
  then obtain d where "p = Some d" by (cases p) auto
  then show ?thesis
    using True unfolding params_obj_after_def request_params_of_def
    by (simp add: update_page_again)
next
  case False
  then show ?thesis by (simp add: params_obj_after_def)
qed

lemma request_params_of_nonempty [simp]: "request_params_of p pg \<noteq> []"
  by (simp add: request_params_of_def)

lemma params_obj_after_after [simp]:
  "params_obj_after (params_obj_after p pg) pg' = params_obj_after p pg'"
proof (cases "truthy_dict p")
  case True
  then have "truthy_dict (params_obj_after p pg)" by (simp add: params_obj_after_def)
  then show ?thesis using True
    by (simp add: params_obj_after_def [of "params_obj_after p pg"])
       (simp add: params_obj_after_def)
next
  case False
  then show ?thesis by (simp add: params_obj_after_def)
qed


lemma paginated_loop_short:
  assumes "api ep (request_params_of (params_obj st) (page st)) = Json data"
    and "int (length data) < per_page"
  shows "paginated_loop api ep st =
         Some (finish st (request_params_of (params_obj st) (page st))
                 (Inr (all_results st @ data)))"
  using assms by (subst paginated_loop.simps) (simp add: Let_def)

lemma paginated_loop_request_failed:
  assumes "api ep (request_params_of (params_obj st) (page st)) = RequestFailed"
  shows "paginated_loop api ep st =
         Some (finish st (request_params_of (params_obj st) (page st))
                 (if response_bound st then Inr (all_results st) else Inl UnboundLocalError))"
  using assms by (subst paginated_loop.simps) (simp add: Let_def)

lemma paginated_loop_bad_response:
  assumes "api ep (request_params_of (params_obj st) (page st)) = BadStatus \<or>
           api ep (request_params_of (params_obj st) (page st)) = InvalidJson"
  shows "paginated_loop api ep st =
         Some (finish st (request_params_of (params_obj st) (page st)) (Inr (all_results st)))"
  using assms by (subst paginated_loop.simps) (auto simp: Let_def)


lemma paginated_get_single_page:
  assumes "api ep (request_params_of params 1) = Json data"
    and "int (length data) < per_page"
  shows "paginated_get api ep params =
         Some \<lparr>returned = Inr data, params_after = params_obj_after params 1,
               requests = [request_params_of params 1]\<rparr>"
  using assms paginated_loop_short [of api ep
      "\<lparr>all_results = [], page = 1, response_bound = False, params_obj = params, sent = []\<rparr>" data]
  by (simp add: paginated_get_def finish_def)




text \<open>
  C2. With the first request failing in \<^verbatim>\<open>requests.get\<close> (timeout or connection
  failure), the handler's read of \<^verbatim>\<open>response.text\<close> raises \<^verbatim>\<open>UnboundLocalError\<close>: the
  call raises instead of returning the empty list.
\<close>

theorem paginated_get_first_request_failure_raises:
  "paginated_get failing_api ''/users'' (Some active_filter) =
     Some \<lparr>returned = Inl UnboundLocalError,
           params_after = Some [(''status'', PStr ''active''), (''page'', PInt 1),
                                (''per_page'', PInt 500)],
           requests = [[(''status'', PStr ''active''), (''page'', PInt 1),
                        (''per_page'', PInt 500)]]\<rparr>"
  unfolding paginated_get_def
  by (subst paginated_loop_request_failed)
     (simp_all add: failing_api_def finish_def request_params_of_def params_obj_after_def
        per_page_def active_filter_def)

text \<open>
  C10. A caller that passes the non-empty dict \<^verbatim>\<open>{'status': 'active'}\<close> finds the keys
  \<^verbatim>\<open>page\<close> and \<^verbatim>\<open>per_page\<close> in it after the call: \<^verbatim>\<open>params or {}\<close> is the caller's own
  dict object, and \<^verbatim>\<open>update\<close> writes into it.
\<close>

theorem paginated_get_writes_into_callers_params:
  "paginated_get short_page_api ''/users'' (Some [(''status'', PStr ''active'')]) =
     Some \<lparr>returned = Inr [10, 20, 30],
           params_after = Some [(''status'', PStr ''active''), (''page'', PInt 1),
                                (''per_page'', PInt 500)],
           requests = [[(''status'', PStr ''active''), (''page'', PInt 1),
                        (''per_page'', PInt 500)]]\<rparr>"
  by (subst paginated_get_single_page [where data = "[10, 20, 30]"])
     (simp_all add: short_page_api_def request_params_of_def params_obj_after_def per_page_def)

section \<open>Properties of the classification loop\<close>

lemma analyse_step_untrained:
  assumes "analyse_step parse mc now st e = Inr st'"
  shows "untrained_users st' =
         (if campaign_name e \<in> set mc \<and> spec_untrained_rule parse now e
          then insert (enr_user_id e) (untrained_users st) else untrained_users st)"
  using assms
  by (auto simp: analyse_step_def spec_untrained_rule_def due_date_present_def
        due_date_elapsed_def add_untrained_def Let_def split: option.splits if_splits)

lemma analyse_step_raises_iff:
  "analyse_step parse mc now st e = Inl x \<longleftrightarrow> malformed_due_date parse mc e \<and> x = ValueError"
  by (auto simp: analyse_step_def malformed_due_date_def Let_def split: option.splits if_splits)

lemma analyse_step_returns:
  assumes "\<not> malformed_due_date parse mc e"
  shows "\<exists>st'. analyse_step parse mc now st e = Inr st'"
proof (cases "analyse_step parse mc now st e")
  case (Inl x)
  with assms show ?thesis by (simp add: analyse_step_raises_iff)
next
  case (Inr st')
  then show ?thesis by blast
qed

lemma analyse_loop_returns_iff:
  "(\<exists>st'. analyse_loop parse mc clock i st es = Inr st') \<longleftrightarrow>
   (\<forall>e \<in> set es. \<not> malformed_due_date parse mc e)"
proof (induction es arbitrary: i st)
  case Nil
  show ?case by simp
next
  case (Cons e es)
  show ?case
  proof (cases "analyse_step parse mc (clock i) st e")
    case (Inl x)
    then have "malformed_due_date parse mc e" by (simp add: analyse_step_raises_iff)
    with Inl show ?thesis by simp
  next
    case (Inr st1)
    then have "\<not> malformed_due_date parse mc e"
      using analyse_step_raises_iff [of parse mc "clock i" st e ValueError] by auto
    with Inr Cons.IH [of "Suc i" st1] show ?thesis by simp
  qed
qed

lemma analyse_loop_raises_ValueError:
  "analyse_loop parse mc clock i st es = Inl x \<Longrightarrow> x = ValueError"
proof (induction es arbitrary: i st)
  case Nil
  then show ?case by simp
next
  case (Cons e es)
  then show ?case
    by (cases "analyse_step parse mc (clock i) st e") (auto simp: analyse_step_raises_iff)
qed

lemma marked_ids_Cons:
  "(\<lambda>j. f ((e # es) ! j)) ` {j \<in> {..<length (e # es)}. P (i + j) ((e # es) ! j)} =
   (if P i e then {f e} else {}) \<union>
   (\<lambda>j. f (es ! j)) ` {j \<in> {..<length es}. P (Suc i + j) (es ! j)}"
proof -
  have "{j \<in> {..<length (e # es)}. P (i + j) ((e # es) ! j)} =
        (if P i e then {0} else {}) \<union> Suc ` {j \<in> {..<length es}. P (Suc i + j) (es ! j)}"
    (is "?L = ?R")
  proof (intro set_eqI iffI)
    fix j assume "j \<in> ?L"
    then show "j \<in> ?R" by (cases j) auto
  next
    fix j assume "j \<in> ?R"
    then show "j \<in> ?L" by (auto split: if_splits)
  qed
  then show ?thesis
    by (simp add: image_Un image_image)
qed

lemma analyse_loop_untrained:
  assumes "analyse_loop parse mc clock i st es = Inr st'"
  shows "untrained_users st' = untrained_users st \<union>
         (\<lambda>j. enr_user_id (es ! j)) `
           {j \<in> {..<length es}. campaign_name (es ! j) \<in> set mc \<and>
                                  spec_untrained_rule parse (clock (i + j)) (es ! j)}"
  using assms
proof (induction es arbitrary: i st)
  case Nil
  then show ?case by simp
next
  case (Cons e es)
  from Cons.prems obtain st1 where
    step: "analyse_step parse mc (clock i) st e = Inr st1" and
    rest: "analyse_loop parse mc clock (Suc i) st1 es = Inr st'"
    by (auto split: sum.splits)
  have "(\<lambda>j. enr_user_id ((e # es) ! j)) `
           {j \<in> {..<length (e # es)}. campaign_name ((e # es) ! j) \<in> set mc \<and>
                                  spec_untrained_rule parse (clock (i + j)) ((e # es) ! j)}
      = (if campaign_name e \<in> set mc \<and> spec_untrained_rule parse (clock i) e
         then {enr_user_id e} else {}) \<union>
        (\<lambda>j. enr_user_id (es ! j)) `
           {j \<in> {..<length es}. campaign_name (es ! j) \<in> set mc \<and>
                                  spec_untrained_rule parse (clock (Suc i + j)) (es ! j)}"
    by (rule marked_ids_Cons
          [of enr_user_id e es "\<lambda>k x. campaign_name x \<in> set mc \<and> spec_untrained_rule parse (clock k) x" i])
  then show ?case
    unfolding Cons.IH [OF rest] analyse_step_untrained [OF step]
    by auto
qed

lemma untrained_set_eq:
  assumes "untrained_set env es mc = Inr S"
  shows "S = spec_untrained_ids env es mc"
proof -
  from assms obtain st' where
    "analyse_loop (strptime env) mc (now_at env) 0 initial_state es = Inr st'"
    and "S = untrained_users st'"
    by (cases "analyse_loop (strptime env) mc (now_at env) 0 initial_state es")
       (auto simp: untrained_set_def)
  then show ?thesis
    using analyse_loop_untrained [of "strptime env" mc "now_at env" 0 initial_state es st']
    by (simp add: spec_untrained_ids_def initial_state_def)
qed

lemma untrained_set_returns_iff:
  "(\<exists>S. untrained_set env es mc = Inr S) \<longleftrightarrow>
   (\<forall>e \<in> set es. \<not> malformed_due_date (strptime env) mc e)"
proof -
  have "(\<exists>S. untrained_set env es mc = Inr S) \<longleftrightarrow>
        (\<exists>st'. analyse_loop (strptime env) mc (now_at env) 0 initial_state es = Inr st')"
    by (cases "analyse_loop (strptime env) mc (now_at env) 0 initial_state es")
       (auto simp: untrained_set_def)
  then show ?thesis
    by (simp only: analyse_loop_returns_iff)
qed

lemma untrained_set_raises:
  assumes "e \<in> set es" and "malformed_due_date (strptime env) mc e"
  shows "untrained_set env es mc = Inl ValueError"
proof (cases "untrained_set env es mc")
  case (Inl x)
  then have "analyse_loop (strptime env) mc (now_at env) 0 initial_state es = Inl x"
    by (cases "analyse_loop (strptime env) mc (now_at env) 0 initial_state es")
       (auto simp: untrained_set_def)
  then have "x = ValueError" by (rule analyse_loop_raises_ValueError)
  with Inl show ?thesis by simp
next
  case (Inr S)
  then have "\<forall>e \<in> set es. \<not> malformed_due_date (strptime env) mc e"
    using untrained_set_returns_iff [of env es mc] by blast
  with assms show ?thesis by blast
qed

subsection \<open>Evaluating the sample data\<close>

lemma sample_strptime_2000:
  "sample_strptime ''2000-01-01T00:00:00Z'' =
     Some \<lparr>year = 2000, month = 1, day = 1, hour = 0, minute = 0, second = 0, microsecond = 0\<rparr>"
  by (simp add: sample_strptime_def digit_of_def days_in_month_def)

lemma sample_strptime_2024:
  "sample_strptime ''2024-01-01T00:00:00Z'' = Some sample_now"
  by (simp add: sample_strptime_def digit_of_def days_in_month_def sample_now_def)

lemma sample_strptime_garbage:
  "sample_strptime ''not-a-date'' = None"
  by (simp add: sample_strptime_def)

lemma dt_less_2000_sample_now:
  "dt_less \<lparr>year = 2000, month = 1, day = 1, hour = 0, minute = 0, second = 0, microsecond = 0\<rparr>
     sample_now"
  by (simp add: dt_less_def dt_fields_def sample_now_def)

lemma fields_less_irrefl: "\<not> fields_less xs xs"
  by (induction xs) auto

lemma fields_less_asym: "fields_less xs ys \<Longrightarrow> \<not> fields_less ys xs"
  by (induction xs ys rule: fields_less.induct) auto

lemma dt_less_irrefl: "\<not> dt_less d d"
  by (simp add: dt_less_def fields_less_irrefl)

lemma dt_less_asym: "dt_less a b \<Longrightarrow> \<not> dt_less b a"
  by (simp add: dt_less_def fields_less_asym)

lemma overdue_step:
  "analyse_step sample_strptime [''Security101''] sample_now initial_state overdue_enrollment =
     Inr \<lparr>untrained_users = {1},
          user_enrollments = [1 \<mapsto> [overdue_enrollment]]\<rparr>"
  by (simp add: analyse_step_def overdue_enrollment_def sample_enrollment_def
        sample_strptime_2000 dt_less_def dt_fields_def sample_now_def add_untrained_def
        initial_state_def Let_def)

lemma overdue_untrained_set:
  "untrained_set sample_env [overdue_enrollment] [''Security101''] = Inr {1}"
  by (simp add: untrained_set_def sample_env_def overdue_step)

text \<open>
  C1. For an enrollment in a mandatory campaign whose user is not yet in the untrained
  set, the loop body returns with the user's id in the set if and only if the status is
  neither "Completed" nor "Passed" and either no due-date is present (the field is
  missing, null or empty) or the due-date is present and lies before the clock value.
  When the analysis returns, the untrained set is exactly the set of the ids that this
  rule marks, so a user without an enrollment in a mandatory campaign is not in it.
\<close>

theorem untrained_classification_rule:
  "(campaign_name e \<in> set mc \<and> enr_user_id e \<notin> untrained_users st \<longrightarrow>
      ((\<exists>st'. analyse_step parse mc now st e = Inr st' \<and> enr_user_id e \<in> untrained_users st')
       \<longleftrightarrow> spec_untrained_rule parse now e))
   \<and>
   (untrained_set env es mc = Inr S \<longrightarrow>
      S = spec_untrained_ids env es mc \<and>
      (\<forall>uid. (\<forall>x \<in> set es. enr_user_id x = uid \<longrightarrow> campaign_name x \<notin> set mc) \<longrightarrow> uid \<notin> S))"
proof (intro conjI impI)
  assume h: "campaign_name e \<in> set mc \<and> enr_user_id e \<notin> untrained_users st"
  show "(\<exists>st'. analyse_step parse mc now st e = Inr st' \<and> enr_user_id e \<in> untrained_users st')
        \<longleftrightarrow> spec_untrained_rule parse now e"
  proof
    assume "\<exists>st'. analyse_step parse mc now st e = Inr st' \<and> enr_user_id e \<in> untrained_users st'"
    then obtain st' where s: "analyse_step parse mc now st e = Inr st'"
      and m: "enr_user_id e \<in> untrained_users st'" by blast
    show "spec_untrained_rule parse now e"
    proof (rule ccontr)
      assume "\<not> spec_untrained_rule parse now e"
      then have "untrained_users st' = untrained_users st"
        using analyse_step_untrained [OF s] by simp
      with m h show False by simp
    qed
  next
    assume r: "spec_untrained_rule parse now e"
    then have "\<not> malformed_due_date parse mc e"
      by (auto simp: spec_untrained_rule_def malformed_due_date_def due_date_present_def
            due_date_elapsed_def split: option.splits)
    then obtain st' where s: "analyse_step parse mc now st e = Inr st'"
      using analyse_step_returns by blast
    then have "enr_user_id e \<in> untrained_users st'"
      using analyse_step_untrained [OF s] r h by simp
    with s show "\<exists>st'. analyse_step parse mc now st e = Inr st' \<and> enr_user_id e \<in> untrained_users st'"
      by blast
  qed
next
  assume "untrained_set env es mc = Inr S"
  then show "S = spec_untrained_ids env es mc" by (rule untrained_set_eq)
next
  assume "untrained_set env es mc = Inr S"
  then have S: "S = spec_untrained_ids env es mc" by (rule untrained_set_eq)
  show "\<forall>uid. (\<forall>x \<in> set es. enr_user_id x = uid \<longrightarrow> campaign_name x \<notin> set mc) \<longrightarrow> uid \<notin> S"
  proof (intro allI impI notI)
    fix uid
    assume none: "\<forall>x \<in> set es. enr_user_id x = uid \<longrightarrow> campaign_name x \<notin> set mc"
      and "uid \<in> S"
    with S obtain i where "i < length es" "campaign_name (es ! i) \<in> set mc"
        "enr_user_id (es ! i) = uid"
      by (auto simp: spec_untrained_ids_def)
    with none show False
      using nth_mem [of i es] by blast
  qed
qed

theorem untrained_classification_rule_witness:
  "campaign_name overdue_enrollment \<in> set [''Security101''] \<and>
   enr_user_id overdue_enrollment \<notin> untrained_users initial_state \<and>
   spec_untrained_rule sample_strptime sample_now overdue_enrollment \<and>
   untrained_set sample_env [overdue_enrollment] [''Security101''] = Inr {1} \<and>
   spec_untrained_ids sample_env [overdue_enrollment] [''Security101''] = {1} \<and>
   enr_user_id overdue_enrollment \<noteq> 2 \<and>
   (2::int) \<notin> {1}"
proof -
  have a: "campaign_name overdue_enrollment \<in> set [''Security101'']"
      "enr_user_id overdue_enrollment \<notin> untrained_users initial_state"
      "enr_user_id overdue_enrollment = 1"
    by (simp_all add: overdue_enrollment_def sample_enrollment_def initial_state_def)
  have b: "\<exists>st'. analyse_step sample_strptime [''Security101''] sample_now initial_state
                   overdue_enrollment = Inr st' \<and>
                 enr_user_id overdue_enrollment \<in> untrained_users st'"
    using overdue_step a(3) by simp
  note inst = untrained_classification_rule
            [where e = overdue_enrollment and mc = "[''Security101'']" and st = initial_state
               and parse = sample_strptime and now = sample_now and env = sample_env
               and es = "[overdue_enrollment]" and S = "{1}"]
  from inst a(1,2) b have c: "spec_untrained_rule sample_strptime sample_now overdue_enrollment"
    by blast
  from inst overdue_untrained_set
  have d: "{1} = spec_untrained_ids sample_env [overdue_enrollment] [''Security101'']"
    by blast
  have e: "\<forall>x \<in> set [overdue_enrollment]. enr_user_id x = 2 \<longrightarrow>
             campaign_name x \<notin> set [''Security101'']"
    using a(3) by simp
  from inst overdue_untrained_set e have f: "(2::int) \<notin> {1}"
    by blast
  have g: "enr_user_id overdue_enrollment \<noteq> 2"
    using a(3) by simp
  from a(1,2) c overdue_untrained_set d [symmetric] g f show ?thesis
    by blast
qed

lemma analyse_step_mandatory_parsed:
  assumes "campaign_name e \<in> set mc" and "status e \<notin> {Some ''Completed'', Some ''Passed''}"
    and "due_date e = Some s" and "s \<noteq> []" and "parse s = Some d"
  shows "\<exists>st'. analyse_step parse mc now st e = Inr st' \<and>
           untrained_users st' =
             (if dt_less d now then insert (enr_user_id e) (untrained_users st)
              else untrained_users st)"
  using assms by (simp add: analyse_step_def Let_def add_untrained_def)

text \<open>
  C5, at the sample clock 2024-01-01 00:00:00: an "In Progress" enrollment in a mandatory
  campaign whose due-date parses to exactly the clock value leaves the untrained set
  empty. The comparison \<^verbatim>\<open>due_date < datetime.now()\<close> is strict.
\<close>

theorem due_date_equal_to_now_not_untrained:
  "campaign_name due_now_enrollment \<in> set [''Security101''] \<and>
   status due_now_enrollment = Some ''In Progress'' \<and>
   due_date due_now_enrollment = Some ''2024-01-01T00:00:00Z'' \<and>
   strptime sample_env ''2024-01-01T00:00:00Z'' = Some (now_at sample_env 0) \<and>
   untrained_set sample_env [due_now_enrollment] [''Security101''] = Inr {}"
  by (simp add: due_now_enrollment_def sample_enrollment_def sample_env_def
        sample_strptime_2024 untrained_set_def analyse_step_def Let_def dt_less_irrefl
        initial_state_def)

text \<open>
  C5, as the code has it. For an "In Progress" enrollment in a mandatory campaign whose
  due-date parses: when the due-date equals the clock value or lies after it (by one
  microsecond or more), the loop body leaves the untrained set as it was; when the
  due-date lies before the clock value, it adds the user's id.
\<close>

theorem due_date_boundary:
  assumes "campaign_name e \<in> set mc" and "status e = Some ''In Progress''"
    and "due_date e = Some s" and "s \<noteq> []" and "parse s = Some d"
  shows "(d = now \<or> dt_less now d \<longrightarrow>
            (\<exists>st'. analyse_step parse mc now st e = Inr st' \<and>
                   untrained_users st' = untrained_users st))
         \<and>
         (dt_less d now \<longrightarrow>
            (\<exists>st'. analyse_step parse mc now st e = Inr st' \<and>
                   untrained_users st' = insert (enr_user_id e) (untrained_users st)))"
proof -
  have st: "status e \<notin> {Some ''Completed'', Some ''Passed''}"
    using assms(2) by simp
  have step: "\<exists>st'. analyse_step parse mc now st e = Inr st' \<and>
           untrained_users st' =
             (if dt_less d now then insert (enr_user_id e) (untrained_users st)
              else untrained_users st)"
    using assms(1) st assms(3,4,5) by (rule analyse_step_mandatory_parsed)
  show ?thesis
  proof (intro conjI impI)
    assume "d = now \<or> dt_less now d"
    then have "\<not> dt_less d now"
      using dt_less_irrefl dt_less_asym by blast
    with step show "\<exists>st'. analyse_step parse mc now st e = Inr st' \<and>
                   untrained_users st' = untrained_users st"
      by simp
  next
    assume "dt_less d now"
    with step show "\<exists>st'. analyse_step parse mc now st e = Inr st' \<and>
                   untrained_users st' = insert (enr_user_id e) (untrained_users st)"
      by simp
  qed
qed

theorem due_date_boundary_witness:
  "(\<exists>st'. analyse_step sample_strptime [''Security101''] sample_now initial_state
            due_now_enrollment = Inr st' \<and>
          untrained_users st' = untrained_users initial_state)
   \<and>
   (dt_less just_before_2024 sample_now \<and>
    (\<exists>st'. analyse_step sample_strptime [''Security101''] just_before_2024 initial_state
            due_now_enrollment = Inr st' \<and>
          untrained_users st' = untrained_users initial_state))
   \<and>
   (\<exists>st'. analyse_step sample_strptime [''Security101''] sample_now initial_state
            late_enrollment = Inr st' \<and>
          untrained_users st' = insert (enr_user_id late_enrollment) (untrained_users initial_state))"
proof -
  have a: "campaign_name due_now_enrollment \<in> set [''Security101'']"
      "status due_now_enrollment = Some ''In Progress''"
      "due_date due_now_enrollment = Some ''2024-01-01T00:00:00Z''"
      "''2024-01-01T00:00:00Z'' \<noteq> []"
    by (simp_all add: due_now_enrollment_def sample_enrollment_def)
  have b: "campaign_name late_enrollment \<in> set [''Security101'']"
      "status late_enrollment = Some ''In Progress''"
      "due_date late_enrollment = Some ''2000-01-01T00:00:00Z''"
      "''2000-01-01T00:00:00Z'' \<noteq> []"
    by (simp_all add: late_enrollment_def sample_enrollment_def)
  from due_date_boundary [where e = due_now_enrollment and mc = "[''Security101'']"
         and s = "''2024-01-01T00:00:00Z''" and parse = sample_strptime and d = sample_now
         and now = sample_now and st = initial_state] a sample_strptime_2024
  have one: "\<exists>st'. analyse_step sample_strptime [''Security101''] sample_now initial_state
            due_now_enrollment = Inr st' \<and>
          untrained_users st' = untrained_users initial_state"
    by blast
  from due_date_boundary [where e = late_enrollment and mc = "[''Security101'']"
         and s = "''2000-01-01T00:00:00Z''" and parse = sample_strptime
         and now = sample_now and st = initial_state, OF b sample_strptime_2000]
    dt_less_2000_sample_now
  have two: "\<exists>st'. analyse_step sample_strptime [''Security101''] sample_now initial_state
            late_enrollment = Inr st' \<and>
          untrained_users st' = insert (enr_user_id late_enrollment) (untrained_users initial_state)"
    by blast
  have future: "dt_less just_before_2024 sample_now"
    by (simp add: dt_less_def dt_fields_def just_before_2024_def sample_now_def)
  from due_date_boundary [where e = due_now_enrollment and mc = "[''Security101'']"
         and s = "''2024-01-01T00:00:00Z''" and parse = sample_strptime and d = sample_now
         and now = just_before_2024 and st = initial_state] a sample_strptime_2024 future
  have three: "\<exists>st'. analyse_step sample_strptime [''Security101''] just_before_2024
            initial_state due_now_enrollment = Inr st' \<and>
          untrained_users st' = untrained_users initial_state"
    by blast
  from one two three future show ?thesis by blast
qed

subsection \<open>Changing the status of one enrollment\<close>

lemma malformed_due_date_status_update:
  assumes "campaign_name e \<in> set mc"
  shows "malformed_due_date parse mc (e\<lparr>status := v\<rparr>) \<longleftrightarrow>
         \<not> (v \<in> {Some ''Completed'', Some ''Passed''} \<or> due_date_readable parse e)"
  using assms
  by (auto simp: malformed_due_date_def due_date_readable_def split: option.splits)

lemma completed_not_marked:
  assumes "status e = Some ''Completed''"
  shows "\<not> spec_untrained_rule parse now e"
  using assms by (simp add: spec_untrained_rule_def)

lemma status_update_returns_iff:
  assumes i: "i < length es" and c: "campaign_name (es ! i) \<in> set mc"
    and ret: "untrained_set env es mc = Inr S"
  shows "(\<exists>S'. untrained_set env (es[i := (es ! i)\<lparr>status := v\<rparr>]) mc = Inr S') \<longleftrightarrow>
         (v \<in> {Some ''Completed'', Some ''Passed''} \<or> due_date_readable (strptime env) (es ! i))"
proof -
  let ?e' = "(es ! i)\<lparr>status := v\<rparr>"
  from ret have ok: "\<forall>e \<in> set es. \<not> malformed_due_date (strptime env) mc e"
    using untrained_set_returns_iff [of env es mc] by blast
  have mem: "?e' \<in> set (es[i := ?e'])"
    using i by (rule set_update_memI)
  have sub: "set (es[i := ?e']) \<subseteq> insert ?e' (set es)"
    by (rule set_update_subset_insert)
  have "(\<forall>e \<in> set (es[i := ?e']). \<not> malformed_due_date (strptime env) mc e) \<longleftrightarrow>
        \<not> malformed_due_date (strptime env) mc ?e'"
    using ok mem sub by blast
  then show ?thesis
    unfolding untrained_set_returns_iff malformed_due_date_status_update [OF c]
    by simp
qed

lemma status_update_ids:
  assumes i: "i < length es" and st: "status (es ! i) = Some ''Completed''"
  shows "spec_untrained_ids env es mc \<subseteq>
           spec_untrained_ids env (es[i := (es ! i)\<lparr>status := v\<rparr>]) mc"
    and "spec_untrained_ids env (es[i := (es ! i)\<lparr>status := v\<rparr>]) mc \<subseteq>
           insert (enr_user_id (es ! i)) (spec_untrained_ids env es mc)"
proof -
  let ?es' = "es[i := (es ! i)\<lparr>status := v\<rparr>]"
  have other: "\<And>j. j \<noteq> i \<Longrightarrow> ?es' ! j = es ! j"
    by simp
  have self: "enr_user_id (?es' ! i) = enr_user_id (es ! i)"
    using i by simp
  show "spec_untrained_ids env es mc \<subseteq> spec_untrained_ids env ?es' mc"
  proof
    fix u assume "u \<in> spec_untrained_ids env es mc"
    then obtain j where j: "j < length es" "campaign_name (es ! j) \<in> set mc"
        "spec_untrained_rule (strptime env) (now_at env j) (es ! j)" "u = enr_user_id (es ! j)"
      by (auto simp: spec_untrained_ids_def)
    with st have "j \<noteq> i"
      using completed_not_marked by blast
    with j other [of j] show "u \<in> spec_untrained_ids env ?es' mc"
      by (auto simp: spec_untrained_ids_def intro!: image_eqI [where x = j])
  qed
  show "spec_untrained_ids env ?es' mc \<subseteq> insert (enr_user_id (es ! i)) (spec_untrained_ids env es mc)"
  proof
    fix u assume "u \<in> spec_untrained_ids env ?es' mc"
    then obtain j where j: "j < length es" "campaign_name (?es' ! j) \<in> set mc"
        "spec_untrained_rule (strptime env) (now_at env j) (?es' ! j)"
        "u = enr_user_id (?es' ! j)"
      by (auto simp: spec_untrained_ids_def)
    show "u \<in> insert (enr_user_id (es ! i)) (spec_untrained_ids env es mc)"
    proof (cases "j = i")
      case True
      with j(4) self show ?thesis by simp
    next
      case False
      with j other [of j] have "u \<in> spec_untrained_ids env es mc"
        by (auto simp: spec_untrained_ids_def intro!: image_eqI [where x = j])
      then show ?thesis by simp
    qed
  qed
qed

text \<open>
  C9, at sample data: an enrollment with status "Completed" and the due-date
  \<^verbatim>\<open>not-a-date\<close> is analysed without reading its due-date, and the untrained set is empty.
  With the status changed to "Failed" the analysis raises \<^verbatim>\<open>ValueError\<close> and yields no
  untrained set.
\<close>

theorem status_change_can_raise:
  "campaign_name completed_garbage_enrollment \<in> set [''Security101''] \<and>
   status completed_garbage_enrollment = Some ''Completed'' \<and>
   untrained_set sample_env [completed_garbage_enrollment] [''Security101''] = Inr {} \<and>
   untrained_set sample_env
     ([completed_garbage_enrollment]
        [0 := ([completed_garbage_enrollment] ! 0)\<lparr>status := Some ''Failed''\<rparr>])
     [''Security101''] = Inl ValueError"
  by (simp add: completed_garbage_enrollment_def sample_enrollment_def sample_env_def
        sample_strptime_garbage untrained_set_def analyse_step_def Let_def initial_state_def)

text \<open>
  C9, as the code has it. Take an input on which the analysis returns, and in it an
  enrollment in a mandatory campaign with status "Completed"; replace that status by any
  other value. The analysis of the changed input returns exactly when the new status is
  "Completed" or "Passed" or the enrollment's due-date is missing, empty or parses; and
  whenever it returns, its untrained set contains the original one and exceeds it at most
  by that enrollment's user id.
\<close>

theorem status_change_monotone:
  assumes "i < length es" and "campaign_name (es ! i) \<in> set mc"
    and "status (es ! i) = Some ''Completed''"
    and "untrained_set env es mc = Inr S"
  shows "((\<exists>S'. untrained_set env (es[i := (es ! i)\<lparr>status := v\<rparr>]) mc = Inr S') \<longleftrightarrow>
            (v \<in> {Some ''Completed'', Some ''Passed''} \<or>
             due_date_readable (strptime env) (es ! i)))
         \<and>
         (\<forall>S'. untrained_set env (es[i := (es ! i)\<lparr>status := v\<rparr>]) mc = Inr S' \<longrightarrow>
               S \<subseteq> S' \<and> S' \<subseteq> insert (enr_user_id (es ! i)) S)"
proof (intro conjI allI impI)
  show "(\<exists>S'. untrained_set env (es[i := (es ! i)\<lparr>status := v\<rparr>]) mc = Inr S') \<longleftrightarrow>
            (v \<in> {Some ''Completed'', Some ''Passed''} \<or>
             due_date_readable (strptime env) (es ! i))"
    using assms(1,2,4) by (rule status_update_returns_iff)
next
  fix S' assume "untrained_set env (es[i := (es ! i)\<lparr>status := v\<rparr>]) mc = Inr S'"
  then have S': "S' = spec_untrained_ids env (es[i := (es ! i)\<lparr>status := v\<rparr>]) mc"
    by (rule untrained_set_eq)
  have S: "S = spec_untrained_ids env es mc"
    using assms(4) by (rule untrained_set_eq)
  show "S \<subseteq> S'"
    unfolding S S' using assms(1,3) by (rule status_update_ids(1))
  show "S' \<subseteq> insert (enr_user_id (es ! i)) S"
    unfolding S S' using assms(1,3) by (rule status_update_ids(2))
qed

lemma completed_untrained_set:
  "untrained_set sample_env [completed_enrollment] [''Security101''] = Inr {}"
  by (simp add: completed_enrollment_def sample_enrollment_def sample_env_def
        untrained_set_def analyse_step_def Let_def initial_state_def)

lemma completed_changed_untrained_set:
  "untrained_set sample_env
     ([completed_enrollment][0 := ([completed_enrollment] ! 0)\<lparr>status := Some ''Failed''\<rparr>])
     [''Security101''] = Inr {1}"
  by (simp add: completed_enrollment_def sample_enrollment_def sample_env_def
        untrained_set_def analyse_step_def Let_def initial_state_def sample_strptime_2000
        dt_less_def dt_fields_def sample_now_def add_untrained_def)

theorem status_change_monotone_witness:
  "(0::nat) < length [completed_enrollment] \<and>
   campaign_name ([completed_enrollment] ! 0) \<in> set [''Security101''] \<and>
   status ([completed_enrollment] ! 0) = Some ''Completed'' \<and>
   untrained_set sample_env [completed_enrollment] [''Security101''] = Inr {} \<and>
   due_date_readable (strptime sample_env) ([completed_enrollment] ! 0) \<and>
   untrained_set sample_env
     ([completed_enrollment][0 := ([completed_enrollment] ! 0)\<lparr>status := Some ''Failed''\<rparr>])
     [''Security101''] = Inr {1} \<and>
   ({}::int set) \<subseteq> {1} \<and> {1} \<subseteq> insert (enr_user_id ([completed_enrollment] ! 0)) {}"
proof -
  have a: "(0::nat) < length [completed_enrollment]"
      "campaign_name ([completed_enrollment] ! 0) \<in> set [''Security101'']"
      "status ([completed_enrollment] ! 0) = Some ''Completed''"
    by (simp_all add: completed_enrollment_def sample_enrollment_def)
  note inst = status_change_monotone [OF a completed_untrained_set, of "Some ''Failed''"]
  from inst completed_changed_untrained_set
  have r: "due_date_readable (strptime sample_env) ([completed_enrollment] ! 0)"
    by auto
  from inst completed_changed_untrained_set
  have s: "({}::int set) \<subseteq> {1} \<and> {1} \<subseteq> insert (enr_user_id ([completed_enrollment] ! 0)) {}"
    by blast
  from a completed_untrained_set r completed_changed_untrained_set s show ?thesis
    by blast
qed

section \<open>Properties of the float arithmetic\<close>

lemma pow2_powi: "pow2 e = 2 powi e"
  by (simp add: pow2_def power_int_def power_inverse [symmetric] inverse_eq_divide
        power_one_over)

lemma pow2_pos: "0 < pow2 e"
  by (simp add: pow2_powi zero_less_power_int)

lemma pow2_of_nat: "0 \<le> e \<Longrightarrow> pow2 e = of_int (2 ^ nat e)"
  by (simp add: pow2_def)

lemma pow2_le_imp_le:
  assumes "pow2 a \<le> pow2 b"
  shows "a \<le> b"
proof (rule ccontr)
  assume "\<not> a \<le> b"
  then have "b < a" by simp
  then have "(2::rat) powi b < 2 powi a"
    by (intro power_int_strict_increasing) simp_all
  with assms show False by (simp add: pow2_powi)
qed

lemma pow2_diff: "pow2 (a - b) = pow2 a / pow2 b"
  by (simp add: pow2_powi power_int_diff)

lemma rne_le:
  assumes "x \<le> of_int n"
  shows "rne x \<le> n"
proof -
  have f: "\<lfloor>x\<rfloor> \<le> n"
    using assms by (simp add: floor_le_iff)
  show ?thesis
  proof (cases "x - of_int \<lfloor>x\<rfloor> < 1 / 2")
    case True
    with f show ?thesis by (simp add: rne_def Let_def)
  next
    case False
    then have "x \<noteq> of_int n"
      by auto
    with assms have "x < of_int n" by simp
    then have "\<lfloor>x\<rfloor> < n" by (simp add: floor_less_iff)
    then show ?thesis by (simp add: rne_def Let_def)
  qed
qed

lemma rne_ge:
  assumes "of_int n \<le> x"
  shows "n \<le> rne x"
proof -
  have "n \<le> \<lfloor>x\<rfloor>"
    using assms by (simp add: le_floor_iff)
  then show ?thesis by (simp add: rne_def Let_def)
qed

lemma rne_0: "rne 0 = 0"
  by (simp add: rne_def)

lemma to_double_0: "to_double 0 = 0"
  by (simp add: to_double_def)

lemma py_round2_0: "py_round2 0 = 0"
  by (simp add: py_round2_def rne_0 to_double_0)

lemma binade_lower:
  assumes "0 < x"
  shows "pow2 (binade x) \<le> x"
proof -
  obtain p q where pq: "quotient_of x = (p, q)"
    by (cases "quotient_of x")
  then have q: "0 < q" by (rule quotient_of_denom_pos)
  have x: "x = of_int p / of_int q"
    using pq by (rule quotient_of_div)
  have p: "0 < p"
  proof (rule ccontr)
    assume "\<not> 0 < p"
    then have "of_int p / (of_int q :: rat) \<le> 0"
      using q by (simp add: divide_le_0_iff)
    with x assms show False by simp
  qed
  have ax: "\<bar>x\<bar> = x" using assms by simp
  let ?d = "bitlen p - bitlen q"
  show ?thesis
  proof (cases "pow2 ?d \<le> x")
    case True
    then show ?thesis
      by (simp add: binade_def ax pq)
  next
    case False
    have bp: "1 \<le> bitlen p"
      using p by (simp add: bitlen_alt_def)
    from bitlen_bounds [OF p] have "2 ^ nat (bitlen p - 1) \<le> p" by simp
    then have "(of_int (2 ^ nat (bitlen p - 1)) :: rat) \<le> of_int p"
      by (simp only: of_int_le_iff)
    then have lo: "pow2 (bitlen p - 1) \<le> of_int p"
      using bp by (simp add: pow2_of_nat)
    from bitlen_bounds [OF q] have "q \<le> 2 ^ nat (bitlen q)" by simp
    then have "(of_int q :: rat) \<le> of_int (2 ^ nat (bitlen q))"
      by (simp only: of_int_le_iff)
    then have hi: "of_int q \<le> pow2 (bitlen q)"
      using bitlen_nonneg [of q] by (simp add: pow2_of_nat)
    have "pow2 (?d - 1) = pow2 (bitlen p - 1) / pow2 (bitlen q)"
      using pow2_diff [of "bitlen p - 1" "bitlen q"] by (simp add: algebra_simps)
    also have "\<dots> \<le> of_int p / of_int q"
      using lo hi q pow2_pos [of "bitlen p - 1"]
      by (intro frac_le) simp_all
    finally have "pow2 (?d - 1) \<le> x" using x by simp
    with False show ?thesis
      by (simp add: binade_def ax pq)
  qed
qed

lemma binade_upper:
  assumes "0 < x"
  shows "x < pow2 (binade x + 1)"
proof -
  obtain p q where pq: "quotient_of x = (p, q)"
    by (cases "quotient_of x")
  then have q: "0 < q" by (rule quotient_of_denom_pos)
  have x: "x = of_int p / of_int q"
    using pq by (rule quotient_of_div)
  have p: "0 < p"
  proof (rule ccontr)
    assume "\<not> 0 < p"
    then have "of_int p / (of_int q :: rat) \<le> 0"
      using q by (simp add: divide_le_0_iff)
    with x assms show False by simp
  qed
  have ax: "\<bar>x\<bar> = x" using assms by simp
  let ?d = "bitlen p - bitlen q"
  show ?thesis
  proof (cases "pow2 ?d \<le> x")
    case False
    then show ?thesis
      by (simp add: binade_def ax pq)
  next
    case True
    have bq: "1 \<le> bitlen q"
      using q by (simp add: bitlen_alt_def)
    from bitlen_bounds [OF p] have "p < 2 ^ nat (bitlen p)" by simp
    then have "(of_int p :: rat) < of_int (2 ^ nat (bitlen p))"
      by (simp only: of_int_less_iff)
    then have hi: "of_int p < pow2 (bitlen p)"
      using bitlen_nonneg [of p] by (simp add: pow2_of_nat)
    from bitlen_bounds [OF q] have "2 ^ nat (bitlen q - 1) \<le> q" by simp
    then have "(of_int (2 ^ nat (bitlen q - 1)) :: rat) \<le> of_int q"
      by (simp only: of_int_le_iff)
    then have lo: "pow2 (bitlen q - 1) \<le> of_int q"
      using bq by (simp add: pow2_of_nat)
    have "of_int p / of_int q < pow2 (bitlen p) / pow2 (bitlen q - 1)"
      using hi lo p q pow2_pos [of "bitlen q - 1"]
      by (intro frac_less) simp_all
    also have "\<dots> = pow2 (?d + 1)"
      using pow2_diff [of "bitlen p" "bitlen q - 1"] by (simp add: algebra_simps)
    finally have "x < pow2 (?d + 1)" using x by simp
    with True show ?thesis
      by (simp add: binade_def ax pq)
  qed
qed

text \<open>The binary64 numbers nearest to 1/3 and to 1/10.\<close>

lemma to_double_third: "to_double (1 / 3) = 6004799503160661 / 2 ^ 54"
  by code_simp

lemma to_double_tenth: "to_double (1 / 10) = 3602879701896397 / 2 ^ 55"
  by code_simp

text \<open>
  Rounding to binary64 does not cross an integer of at most 53 bits: such an integer is
  a binary64 number itself.
\<close>

lemma to_double_bounds:
  assumes "0 \<le> x" and "x \<le> of_int m" and "m \<le> 2 ^ 52"
  shows "0 \<le> to_double x \<and> to_double x \<le> of_int m"
proof (cases "x = 0")
  case True
  with assms show ?thesis by (simp add: to_double_0)
next
  case False
  with assms have pos: "0 < x" by simp
  let ?e = "binade x"
  let ?u = "pow2 (?e - 52)"
  have "pow2 ?e \<le> x" using pos by (rule binade_lower)
  also have "x \<le> of_int m" by fact
  also have "(of_int m :: rat) \<le> of_int (2 ^ 52)"
    using assms(3) by (simp only: of_int_le_iff)
  also have "(of_int (2 ^ 52) :: rat) = pow2 52"
    by (simp add: pow2_def)
  finally have e: "?e \<le> 52" by (rule pow2_le_imp_le)
  have u: "0 < ?u" by (rule pow2_pos)
  have inv: "1 / ?u = of_int (2 ^ nat (52 - ?e))"
    using pow2_diff [of 0 "?e - 52"] pow2_of_nat [of "52 - ?e"] e
    by (simp add: pow2_def)
  have td: "to_double x = of_int (rne (x / ?u)) * ?u"
    using False by (simp add: to_double_def Let_def)
  have "x / ?u \<le> of_int m / ?u"
    using assms(2) u by (simp add: divide_right_mono)
  also have "of_int m / ?u = of_int (m * 2 ^ nat (52 - ?e))"
  proof -
    have "of_int m / ?u = of_int m * (1 / ?u)" by simp
    also have "\<dots> = of_int m * of_int (2 ^ nat (52 - ?e))" by (simp only: inv)
    finally show ?thesis by simp
  qed
  finally have "rne (x / ?u) \<le> m * 2 ^ nat (52 - ?e)" by (rule rne_le)
  then have "(of_int (rne (x / ?u)) :: rat) \<le> of_int (m * 2 ^ nat (52 - ?e))"
    by (simp only: of_int_le_iff)
  then have "of_int (rne (x / ?u)) * ?u \<le> of_int (m * 2 ^ nat (52 - ?e)) * ?u"
    using u by (simp add: mult_right_mono)
  also have "of_int (m * 2 ^ nat (52 - ?e)) * ?u = of_int m"
  proof -
    have "of_int (2 ^ nat (52 - ?e)) * ?u = (1 / ?u) * ?u" by (simp only: inv)
    also have "\<dots> = 1" using u by simp
    finally have "of_int (2 ^ nat (52 - ?e)) * ?u = 1" .
    then have "of_int m * (of_int (2 ^ nat (52 - ?e)) * ?u) = of_int m" by simp
    then show ?thesis by (simp add: mult.assoc)
  qed
  finally have upper: "to_double x \<le> of_int m" by (simp add: td)
  have "(of_int 0 :: rat) \<le> x / ?u" using pos u by simp
  then have "0 \<le> rne (x / ?u)" by (rule rne_ge)
  then have "0 \<le> to_double x" using u by (simp add: td)
  with upper show ?thesis by simp
qed

lemma completion_rate_in_range:
  assumes "total_untrained \<le> total_users"
  shows "0 \<le> py_round2 (completion_rate total_users total_untrained) \<and>
         py_round2 (completion_rate total_users total_untrained) \<le> 100"
proof (cases "total_users = 0")
  case True
  then show ?thesis by (simp add: completion_rate_def py_round2_0)
next
  case False
  let ?q = "of_int (int total_users - int total_untrained) / of_int (int total_users) :: rat"
  let ?a = "int_truediv (int total_users - int total_untrained) (int total_users)"
  let ?b = "float_mul ?a 100"
  have q: "0 \<le> ?q" "?q \<le> of_int 1"
    using assms False by (simp_all add: divide_le_eq_1)
  have a: "0 \<le> ?a \<and> ?a \<le> of_int 1"
    unfolding int_truediv_def using q by (intro to_double_bounds) simp_all
  then have "0 \<le> ?a * 100" "?a * 100 \<le> of_int 100" by simp_all
  then have b: "0 \<le> ?b \<and> ?b \<le> of_int 100"
    unfolding float_mul_def by (intro to_double_bounds) simp_all
  then have "of_int 0 \<le> ?b * 100" "?b * 100 \<le> of_int 10000" by simp_all
  then have r: "0 \<le> rne (?b * 100)" "rne (?b * 100) \<le> 10000"
    using rne_ge [of 0 "?b * 100"] rne_le [of "?b * 100" 10000] by simp_all
  then have "0 \<le> (of_int (rne (?b * 100)) :: rat) / 100"
      "(of_int (rne (?b * 100)) :: rat) / 100 \<le> of_int 100"
    by simp_all
  then have "0 \<le> py_round2 ?b \<and> py_round2 ?b \<le> of_int 100"
    unfolding py_round2_def by (intro to_double_bounds) simp_all
  with False show ?thesis by (simp add: completion_rate_def)
qed

section \<open>Properties of the report\<close>

lemma analyse_training_data_Inr:
  assumes "analyse_training_data env opt_fields users es mc = Inr r"
  obtains S where "untrained_set env es mc = Inr S"
    and "r = build_report env opt_fields users S"
  using assms
  by (cases "untrained_set env es mc") (auto simp: analyse_training_data_def)

lemma spec_untrained_ids_subset:
  "spec_untrained_ids env es mc \<subseteq> enr_user_id ` set es"
  by (auto simp: spec_untrained_ids_def)

lemma untrained_le_users:
  assumes "untrained_set env es mc = Inr S"
    and "\<forall>e \<in> set es. enr_user_id e \<in> user_id ` set users"
  shows "card S \<le> length users"
proof -
  have "S = spec_untrained_ids env es mc"
    using assms(1) by (rule untrained_set_eq)
  then have "S \<subseteq> user_id ` set users"
    using spec_untrained_ids_subset [of env es mc] assms(2) by blast
  then have "card S \<le> card (user_id ` set users)"
    by (intro card_mono) simp_all
  also have "\<dots> \<le> card (set users)"
    by (intro card_image_le) simp
  also have "\<dots> \<le> length users"
    by (rule card_length)
  finally show ?thesis .
qed

subsection \<open>Sample reports\<close>

lemma rate_all_untrained: "py_round2 (completion_rate 1 1) = 0"
  by (simp add: completion_rate_def int_truediv_def float_mul_def to_double_0 py_round2_0)

lemma rate_none_untrained: "py_round2 (completion_rate 1 0) = 100"
  by code_simp

lemma rate_more_untrained_than_users: "py_round2 (completion_rate 1 2) = - 100"
  by code_simp

lemma sample_lookup: "user_lookup [alice] 1 = Some alice" "user_lookup [alice] 2 = None"
  by (simp_all add: user_lookup_def alice_def)

lemma sample_row:
  "untrained_row [] alice =
     [(''Name'', PStr ''A B''), (''Email'', PStr ''a@x.com''), (''Manager'', PStr ''N/A'')]"
  by (simp add: untrained_row_def alice_def get_or_na_def user_get_def)

lemma report_all_untrained:
  "analyse_training_data sample_env [] [alice] [overdue_enrollment] [''Security101''] =
     Inr \<lparr>report_metrics =
            \<lparr>Total_Users = 1, Total_Untrained_Users = 1, Completion_Rate = 0\<rparr>,
          untrained_user_data =
            [[(''Name'', PStr ''A B''), (''Email'', PStr ''a@x.com''),
              (''Manager'', PStr ''N/A'')]]\<rparr>"
  using rate_all_untrained
  by (simp add: analyse_training_data_def overdue_untrained_set)
     (simp add: build_report_def sample_env_def sample_lookup sample_row List.map_filter_def)

lemma report_completed:
  "analyse_training_data sample_env [] [alice] [completed_enrollment] [''Security101''] =
     Inr \<lparr>report_metrics =
            \<lparr>Total_Users = 1, Total_Untrained_Users = 0, Completion_Rate = 100\<rparr>,
          untrained_user_data = []\<rparr>"
  using rate_none_untrained
  by (simp add: analyse_training_data_def completed_untrained_set)
     (simp add: build_report_def sample_env_def List.map_filter_def)

lemma report_no_users:
  "analyse_training_data sample_env [] [] [] [''Security101''] =
     Inr \<lparr>report_metrics =
            \<lparr>Total_Users = 0, Total_Untrained_Users = 0, Completion_Rate = 0\<rparr>,
          untrained_user_data = []\<rparr>"
  by (simp add: analyse_training_data_def untrained_set_def initial_state_def build_report_def
        completion_rate_def py_round2_0 sample_env_def List.map_filter_def)

text \<open>
  C3, at sample data: one user, overdue in a mandatory campaign. The users list is not
  empty and the Completion Rate is 0.
\<close>

theorem completion_rate_zero_with_users:
  "[alice] \<noteq> [] \<and>
   analyse_training_data sample_env [] [alice] [overdue_enrollment] [''Security101''] =
     Inr \<lparr>report_metrics =
            \<lparr>Total_Users = 1, Total_Untrained_Users = 1, Completion_Rate = 0\<rparr>,
          untrained_user_data =
            [[(''Name'', PStr ''A B''), (''Email'', PStr ''a@x.com''),
              (''Manager'', PStr ''N/A'')]]\<rparr>"
  using report_all_untrained by simp

text \<open>
  C3, as the code has it. In every report the analysis returns, the Completion Rate is 0
  when the users list is empty, and it lies in the interval from 0 to 100 when every
  enrollment's user id is the id of one of the users.
\<close>

theorem completion_rate_bounds:
  assumes "analyse_training_data env opt_fields users es mc = Inr r"
  shows "(users = [] \<longrightarrow> Completion_Rate (report_metrics r) = 0) \<and>
         ((\<forall>e \<in> set es. enr_user_id e \<in> user_id ` set users) \<longrightarrow>
            0 \<le> Completion_Rate (report_metrics r) \<and> Completion_Rate (report_metrics r) \<le> 100)"
proof -
  from assms obtain S where S: "untrained_set env es mc = Inr S"
    and r: "r = build_report env opt_fields users S"
    by (rule analyse_training_data_Inr)
  have rate: "Completion_Rate (report_metrics r) = py_round2 (completion_rate (length users) (card S))"
    by (simp add: r build_report_def)
  show ?thesis
  proof (intro conjI impI)
    assume "users = []"
    then show "Completion_Rate (report_metrics r) = 0"
      by (simp add: rate completion_rate_def py_round2_0)
  next
    assume known: "\<forall>e \<in> set es. enr_user_id e \<in> user_id ` set users"
    with S have "card S \<le> length users" by (rule untrained_le_users)
    then have "0 \<le> py_round2 (completion_rate (length users) (card S)) \<and>
               py_round2 (completion_rate (length users) (card S)) \<le> 100"
      by (rule completion_rate_in_range)
    then show "0 \<le> Completion_Rate (report_metrics r)"
      and "Completion_Rate (report_metrics r) \<le> 100"
      by (simp_all add: rate)
  qed
qed

theorem completion_rate_bounds_witness:
  "(([]::user list) = [] \<and>
    Completion_Rate (report_metrics
      \<lparr>report_metrics = \<lparr>Total_Users = 0, Total_Untrained_Users = 0, Completion_Rate = 0\<rparr>,
       untrained_user_data = []\<rparr>) = 0)
   \<and>
   (enr_user_id completed_enrollment \<in> user_id ` set [alice] \<and>
    (0::rat) \<le> Completion_Rate (report_metrics
      \<lparr>report_metrics = \<lparr>Total_Users = 1, Total_Untrained_Users = 0, Completion_Rate = 100\<rparr>,
       untrained_user_data = []\<rparr>) \<and>
    Completion_Rate (report_metrics
      \<lparr>report_metrics = \<lparr>Total_Users = 1, Total_Untrained_Users = 0, Completion_Rate = 100\<rparr>,
       untrained_user_data = []\<rparr>) \<le> 100)"
proof -
  have known: "\<forall>e \<in> set [completed_enrollment]. enr_user_id e \<in> user_id ` set [alice]"
    by (simp add: completed_enrollment_def sample_enrollment_def alice_def)
  have one: "enr_user_id completed_enrollment \<in> user_id ` set [alice]"
    using known by simp
  from completion_rate_bounds [OF report_no_users] completion_rate_bounds [OF report_completed]
    known one
  show ?thesis by simp
qed

text \<open>
  C4. With one user, id 1, and one enrollment of user 2 (not in the users list) that the
  rule marks, the report counts one untrained user and a Completion Rate of 0; without
  that enrollment it counts none and a rate of 100. The detail rows are empty in both.
\<close>

theorem unknown_user_enrollment_changes_metrics:
  "enr_user_id unknown_user_enrollment \<notin> user_id ` set [alice] \<and>
   analyse_training_data sample_env [] [alice] [unknown_user_enrollment] [''Security101''] =
     Inr \<lparr>report_metrics =
            \<lparr>Total_Users = 1, Total_Untrained_Users = 1, Completion_Rate = 0\<rparr>,
          untrained_user_data = []\<rparr> \<and>
   analyse_training_data sample_env [] [alice] [] [''Security101''] =
     Inr \<lparr>report_metrics =
            \<lparr>Total_Users = 1, Total_Untrained_Users = 0, Completion_Rate = 100\<rparr>,
          untrained_user_data = []\<rparr>"
proof -
  have a: "untrained_set sample_env [unknown_user_enrollment] [''Security101''] = Inr {2}"
    by (simp add: untrained_set_def unknown_user_enrollment_def sample_enrollment_def
          analyse_step_def Let_def add_untrained_def initial_state_def)
  have b: "untrained_set sample_env [] [''Security101''] = Inr {}"
    by (simp add: untrained_set_def initial_state_def)
  have c: "enr_user_id unknown_user_enrollment \<notin> user_id ` set [alice]"
    by (simp add: unknown_user_enrollment_def sample_enrollment_def alice_def)
  have d: "analyse_training_data sample_env [] [alice] [unknown_user_enrollment]
             [''Security101''] =
     Inr \<lparr>report_metrics =
            \<lparr>Total_Users = 1, Total_Untrained_Users = 1, Completion_Rate = 0\<rparr>,
          untrained_user_data = []\<rparr>"
    using rate_all_untrained
    by (simp add: analyse_training_data_def a)
       (simp add: build_report_def sample_env_def sample_lookup List.map_filter_def)
  have e: "analyse_training_data sample_env [] [alice] [] [''Security101''] =
     Inr \<lparr>report_metrics =
            \<lparr>Total_Users = 1, Total_Untrained_Users = 0, Completion_Rate = 100\<rparr>,
          untrained_user_data = []\<rparr>"
    using rate_none_untrained
    by (simp add: analyse_training_data_def b)
       (simp add: build_report_def sample_env_def List.map_filter_def)
  from c d e show ?thesis by blast
qed

text \<open>
  Two such enrollments, of the users 2 and 3, give more untrained users than users and a
  negative Completion Rate.
\<close>

lemma two_unknown_users_negative_rate:
  "map_sum id report_metrics
     (analyse_training_data sample_env [] [alice]
        [unknown_user_enrollment, other_unknown_user_enrollment] [''Security101'']) =
   Inr \<lparr>Total_Users = 1, Total_Untrained_Users = 2, Completion_Rate = - 100\<rparr>"
proof -
  have a: "untrained_set sample_env [unknown_user_enrollment, other_unknown_user_enrollment]
             [''Security101''] = Inr {3, 2}"
    by (simp add: untrained_set_def unknown_user_enrollment_def
          other_unknown_user_enrollment_def sample_enrollment_def
          analyse_step_def Let_def add_untrained_def initial_state_def)
  have "py_round2 (completion_rate (Suc 0) (Suc (Suc 0))) = - 100"
    using rate_more_untrained_than_users by (simp add: numeral_2_eq_2)
  then show ?thesis
    by (simp add: analyse_training_data_def a) (simp add: build_report_def)
qed

section \<open>Properties of \<^verbatim>\<open>generate_report\<close>\<close>

lemma analyse_training_data_raises:
  assumes "e \<in> set es" and "malformed_due_date (strptime env) mc e"
  shows "analyse_training_data env opt_fields users es mc = Inl ValueError"
  using untrained_set_raises [OF assms] by (simp add: analyse_training_data_def)

lemma generate_report_caught:
  assumes "fetch_inputs cfg a = Some (Inr (users, es))"
    and "analyse_training_data env (cfg_optional_user_fields cfg) users es
           (cfg_mandatory_campaigns cfg) = Inl x"
  shows "generate_report cfg a env =
         Some \<lparr>metrics_file = None, untrained_file = None, error_logged = Some x\<rparr>"
  using assms by (simp add: generate_report_def caught_def)

lemma sample_fetch_inputs:
  "fetch_inputs sample_config sample_api = Some (Inr ([alice], [garbage_enrollment]))"
proof -
  have u: "get_users sample_api =
           Some \<lparr>returned = Inr [alice],
                 params_after = params_obj_after (Some [(''status'', PStr ''active'')]) 1,
                 requests = [request_params_of (Some [(''status'', PStr ''active'')]) 1]\<rparr>"
    unfolding get_users_def
    by (rule paginated_get_single_page) (simp_all add: sample_api_def per_page_def)
  have c: "get_training_campaigns sample_api =
           Some \<lparr>returned = Inr [\<lparr>name = ''Security101'', campaign_id = 7\<rparr>],
                 params_after = params_obj_after None 1,
                 requests = [request_params_of None 1]\<rparr>"
    unfolding get_training_campaigns_def
    by (rule paginated_get_single_page) (simp_all add: sample_api_def per_page_def)
  have e: "get_training_enrollments sample_api (Some 7) =
           Some \<lparr>returned = Inr [garbage_enrollment],
                 params_after = params_obj_after (Some [(''campaign_id'', PInt 7)]) 1,
                 requests = [request_params_of (Some [(''campaign_id'', PInt 7)]) 1]\<rparr>"
    unfolding get_training_enrollments_def
    by (simp, rule paginated_get_single_page) (simp_all add: sample_api_def per_page_def)
  show ?thesis
    by (simp add: fetch_inputs_def after_fetch_def u c e sample_config_def)
qed

text \<open>
  C8, at sample data: an enrollment in a mandatory campaign with status "Failed" whose
  due-date is the empty string. The empty string does not parse, but \<^verbatim>\<open>if due_date:\<close> is
  false for it and the parser is never called: the analysis returns, with the user
  untrained.
\<close>

theorem empty_due_date_does_not_raise:
  "campaign_name empty_due_enrollment \<in> set [''Security101''] \<and>
   status empty_due_enrollment \<notin> {Some ''Completed'', Some ''Passed''} \<and>
   due_date empty_due_enrollment = Some [] \<and>
   strptime sample_env [] = None \<and>
   analyse_training_data sample_env [] [alice] [empty_due_enrollment] [''Security101''] =
     Inr \<lparr>report_metrics =
            \<lparr>Total_Users = 1, Total_Untrained_Users = 1, Completion_Rate = 0\<rparr>,
          untrained_user_data =
            [[(''Name'', PStr ''A B''), (''Email'', PStr ''a@x.com''),
              (''Manager'', PStr ''N/A'')]]\<rparr>"
proof -
  have a: "untrained_set sample_env [empty_due_enrollment] [''Security101''] = Inr {1}"
    by (simp add: untrained_set_def empty_due_enrollment_def sample_enrollment_def
          analyse_step_def Let_def add_untrained_def initial_state_def)
  have b: "analyse_training_data sample_env [] [alice] [empty_due_enrollment]
             [''Security101''] =
     Inr \<lparr>report_metrics =
            \<lparr>Total_Users = 1, Total_Untrained_Users = 1, Completion_Rate = 0\<rparr>,
          untrained_user_data =
            [[(''Name'', PStr ''A B''), (''Email'', PStr ''a@x.com''),
              (''Manager'', PStr ''N/A'')]]\<rparr>"
    using rate_all_untrained
    by (simp add: analyse_training_data_def a)
       (simp add: build_report_def sample_env_def sample_lookup sample_row
          List.map_filter_def)
  have c: "strptime sample_env [] = None"
    by (simp add: sample_env_def sample_strptime_def)
  have d: "campaign_name empty_due_enrollment \<in> set [''Security101'']"
      "status empty_due_enrollment \<notin> {Some ''Completed'', Some ''Passed''}"
      "due_date empty_due_enrollment = Some []"
    by (simp_all add: empty_due_enrollment_def sample_enrollment_def)
  from d c b show ?thesis by blast
qed

text \<open>
  C8, as the code has it. When an enrollment in a mandatory campaign has a status other
  than "Completed" and "Passed" and a non-empty due-date string that does not parse,
  \<^verbatim>\<open>analyse_training_data\<close> raises \<^verbatim>\<open>ValueError\<close> instead of returning. In a run of
  \<^verbatim>\<open>generate_report\<close> that fetched these users and enrollments, the exception is caught
  by \<^verbatim>\<open>except Exception\<close> and logged, and neither output file is written.
\<close>

theorem malformed_due_date_aborts_run:
  assumes "e \<in> set es" and "campaign_name e \<in> set mc"
    and "status e \<notin> {Some ''Completed'', Some ''Passed''}"
    and "due_date e = Some s" and "s \<noteq> []" and "strptime env s = None"
  shows "analyse_training_data env opt_fields users es mc = Inl ValueError \<and>
         (cfg_mandatory_campaigns cfg = mc \<and> cfg_optional_user_fields cfg = opt_fields \<and>
          fetch_inputs cfg a = Some (Inr (users, es)) \<longrightarrow>
            generate_report cfg a env =
              Some \<lparr>metrics_file = None, untrained_file = None,
                    error_logged = Some ValueError\<rparr>)"
proof -
  have "malformed_due_date (strptime env) mc e"
    using assms(2-6) by (simp add: malformed_due_date_def)
  with assms(1)
  have raises: "analyse_training_data env opt_fields users es mc = Inl ValueError"
    by (rule analyse_training_data_raises)
  show ?thesis
  proof (intro conjI impI)
    show "analyse_training_data env opt_fields users es mc = Inl ValueError" by (rule raises)
  next
    assume h: "cfg_mandatory_campaigns cfg = mc \<and> cfg_optional_user_fields cfg = opt_fields \<and>
          fetch_inputs cfg a = Some (Inr (users, es))"
    with raises show "generate_report cfg a env =
              Some \<lparr>metrics_file = None, untrained_file = None,
                    error_logged = Some ValueError\<rparr>"
      by (intro generate_report_caught) simp_all
  qed
qed

theorem malformed_due_date_aborts_run_witness:
  "garbage_enrollment \<in> set [garbage_enrollment] \<and>
   campaign_name garbage_enrollment \<in> set [''Security101''] \<and>
   status garbage_enrollment \<notin> {Some ''Completed'', Some ''Passed''} \<and>
   due_date garbage_enrollment = Some ''not-a-date'' \<and> ''not-a-date'' \<noteq> [] \<and>
   strptime sample_env ''not-a-date'' = None \<and>
   fetch_inputs sample_config sample_api = Some (Inr ([alice], [garbage_enrollment])) \<and>
   analyse_training_data sample_env [] [alice] [garbage_enrollment] [''Security101''] =
     Inl ValueError \<and>
   generate_report sample_config sample_api sample_env =
     Some \<lparr>metrics_file = None, untrained_file = None, error_logged = Some ValueError\<rparr>"
proof -
  have a: "garbage_enrollment \<in> set [garbage_enrollment]"
      "campaign_name garbage_enrollment \<in> set [''Security101'']"
      "status garbage_enrollment \<notin> {Some ''Completed'', Some ''Passed''}"
      "due_date garbage_enrollment = Some ''not-a-date''"
      "''not-a-date'' \<noteq> []"
      "strptime sample_env ''not-a-date'' = None"
    by (simp_all add: garbage_enrollment_def sample_enrollment_def sample_env_def
          sample_strptime_garbage)
  have c: "cfg_mandatory_campaigns sample_config = [''Security101'']"
      "cfg_optional_user_fields sample_config = []"
    by (simp_all add: sample_config_def)
  note inst = malformed_due_date_aborts_run
      [where e = garbage_enrollment and es = "[garbage_enrollment]" and mc = "[''Security101'']"
         and s = "''not-a-date''" and env = sample_env and opt_fields = "[]"
         and users = "[alice]" and cfg = sample_config and a = sample_api, OF a]
  from inst c sample_fetch_inputs a show ?thesis
    by simp
qed

section \<open>The rounding of the completion rate\<close>

lemma rne_error: "\<bar>of_int (rne y) - y\<bar> \<le> 1 / 2"
proof -
  have lo: "of_int \<lfloor>y\<rfloor> \<le> y" and hi: "y < of_int \<lfloor>y\<rfloor> + 1"
    by linarith+
  show ?thesis
    unfolding rne_def Let_def using lo hi by (auto simp: abs_le_iff)
qed

lemma rne_unique:
  assumes "\<bar>of_int k - y\<bar> < 1 / 2"
  shows "rne y = k"
proof -
  have "\<bar>(of_int (rne y) :: rat) - of_int k\<bar> \<le> \<bar>of_int (rne y) - y\<bar> + \<bar>of_int k - y\<bar>"
    by linarith
  also have "\<dots> < 1 / 2 + 1 / 2"
    using rne_error [of y] assms by linarith
  finally have "\<bar>(of_int (rne y - k) :: rat)\<bar> < of_int 1" by simp
  then have "\<bar>rne y - k\<bar> < 1"
    by (simp only: of_int_abs [symmetric] of_int_less_iff)
  then show ?thesis by simp
qed

lemma binade_abs: "binade \<bar>x\<bar> = binade x"
  by (simp add: binade_def)

text \<open>Rounding to binary64 moves a number by at most half a unit in the last place.\<close>

lemma to_double_error: "\<bar>to_double x - x\<bar> \<le> \<bar>x\<bar> / 2 ^ 53"
proof (cases "x = 0")
  case True
  then show ?thesis by (simp add: to_double_0)
next
  case False
  let ?u = "pow2 (binade x - 52)"
  have u: "0 < ?u" by (rule pow2_pos)
  have "pow2 (binade \<bar>x\<bar>) \<le> \<bar>x\<bar>"
    using False by (intro binade_lower) simp
  then have e: "pow2 (binade x) \<le> \<bar>x\<bar>" by (simp add: binade_abs)
  have half: "?u / 2 = pow2 (binade x) / 2 ^ 53"
    using pow2_diff [of "binade x" 52] by (simp add: pow2_def [of 52])
  have "to_double x - x = (of_int (rne (x / ?u)) - x / ?u) * ?u"
    using False u by (simp add: to_double_def Let_def field_simps)
  then have "\<bar>to_double x - x\<bar> = \<bar>of_int (rne (x / ?u)) - x / ?u\<bar> * ?u"
    using u by (simp add: abs_mult)
  also have "\<dots> \<le> (1 / 2) * ?u"
    using rne_error [of "x / ?u"] u by (intro mult_right_mono) simp_all
  also have "\<dots> = pow2 (binade x) / 2 ^ 53"
    using half by simp
  also have "\<dots> \<le> \<bar>x\<bar> / 2 ^ 53"
    using e by (simp add: divide_right_mono)
  finally show ?thesis .
qed

lemma abs_scale_100: "\<bar>100 * (x::rat)\<bar> = 100 * \<bar>x\<bar>"
  by (simp add: abs_mult)

text \<open>Two roundings in a row, of \<open>q\<close> and of 100 times the result.\<close>

lemma double_rounding_error:
  fixes q a b K :: rat
  assumes K: "1 \<le> K"
    and a: "\<bar>a - q\<bar> \<le> \<bar>q\<bar> / K"
    and b: "\<bar>b - a * 100\<bar> \<le> \<bar>a * 100\<bar> / K"
  shows "\<bar>b - q * 100\<bar> \<le> \<bar>q * 100\<bar> * 3 / K"
proof -
  define x where "x = \<bar>q\<bar> / K"
  have K0: "0 < K" using K by simp
  have x0: "0 \<le> x" using K0 by (simp add: x_def)
  have e1: "\<bar>a - q\<bar> \<le> x" using a by (simp add: x_def)
  have "\<bar>a\<bar> \<le> \<bar>q\<bar> + \<bar>a - q\<bar>" by simp
  then have "\<bar>a\<bar> / K \<le> (\<bar>q\<bar> + \<bar>a - q\<bar>) / K"
    using K0 by (simp add: divide_right_mono)
  also have "\<dots> = x + \<bar>a - q\<bar> / K"
    by (simp add: x_def add_divide_distrib)
  also have "\<bar>a - q\<bar> / K \<le> \<bar>a - q\<bar> / 1"
    using K by (intro divide_left_mono) simp_all
  finally have "\<bar>a\<bar> / K \<le> x + \<bar>a - q\<bar>" by simp
  with e1 have aK: "\<bar>a\<bar> / K \<le> 2 * x" by simp
  have "\<bar>a * 100\<bar> / K = 100 * (\<bar>a\<bar> / K)"
    by (simp add: abs_mult)
  with b aK have e2: "\<bar>b - a * 100\<bar> \<le> 200 * x" by simp
  have "b - q * 100 = (b - a * 100) + 100 * (a - q)"
    by (simp add: algebra_simps)
  then have "\<bar>b - q * 100\<bar> \<le> \<bar>b - a * 100\<bar> + \<bar>100 * (a - q)\<bar>"
    by (simp only: abs_triangle_ineq)
  then have "\<bar>b - q * 100\<bar> \<le> \<bar>b - a * 100\<bar> + 100 * \<bar>a - q\<bar>"
    by (simp only: abs_scale_100)
  with e1 e2 have "\<bar>b - q * 100\<bar> \<le> 300 * x" by simp
  also have "300 * x = \<bar>q * 100\<bar> * 3 / K"
    by (simp add: x_def abs_mult)
  finally show ?thesis .
qed

lemma completion_rate_error:
  assumes "t \<noteq> 0"
  shows "\<bar>completion_rate t u - exact_rate t u\<bar> \<le> \<bar>exact_rate t u\<bar> * 3 / 2 ^ 53"
proof -
  let ?q = "of_int (int t - int u) / of_int (int t) :: rat"
  let ?a = "to_double ?q"
  let ?b = "to_double (?a * 100)"
  have cr: "completion_rate t u = ?b"
    using assms by (simp add: completion_rate_def float_mul_def int_truediv_def)
  have er: "exact_rate t u = ?q * 100"
    using assms by (simp add: exact_rate_def)
  have K: "(1::rat) \<le> 2 ^ 53" by simp
  have a: "\<bar>?a - ?q\<bar> \<le> \<bar>?q\<bar> / 2 ^ 53"
    by (rule to_double_error)
  have b: "\<bar>?b - ?a * 100\<bar> \<le> \<bar>?a * 100\<bar> / 2 ^ 53"
    by (rule to_double_error)
  have "\<bar>?b - ?q * 100\<bar> \<le> \<bar>?q * 100\<bar> * 3 / 2 ^ 53"
    using K a b by (rule double_rounding_error)
  then show ?thesis by (simp only: cr er)
qed

text \<open>
  Rounding to two decimals: the nearest multiple of 1/100 of the rounded product is
  within 1/200, and a rounding error, of the exact rate.
\<close>

lemma hundredth_error:
  fixes b X :: rat and k :: int
  assumes b: "\<bar>b - X\<bar> \<le> \<bar>X\<bar> * 3 / 2 ^ 53"
    and k: "\<bar>of_int k - b * 100\<bar> \<le> 1 / 2"
  shows "\<bar>of_int k / 100 - X\<bar> \<le> 1 / 200 + \<bar>X\<bar> / 2 ^ 51"
proof -
  have "of_int k / 100 - b = (of_int k - b * 100) / 100"
    by (simp add: diff_divide_distrib)
  then have "\<bar>of_int k / 100 - b\<bar> = \<bar>(of_int k - b * 100) / 100\<bar>"
    by (simp only:)
  also have "\<dots> = \<bar>of_int k - b * 100\<bar> / 100"
    by (simp only: abs_divide)
  finally have "\<bar>of_int k / 100 - b\<bar> = \<bar>of_int k - b * 100\<bar> / 100" .
  with k have kb: "\<bar>of_int k / 100 - b\<bar> \<le> 1 / 200" by simp
  have "\<bar>X\<bar> * 3 / 2 ^ 53 \<le> \<bar>X\<bar> * 4 / 2 ^ 53"
    by (intro divide_right_mono mult_left_mono) simp_all
  also have "\<dots> = \<bar>X\<bar> / 2 ^ 51" by simp
  finally have bX: "\<bar>b - X\<bar> \<le> \<bar>X\<bar> / 2 ^ 51" using b by simp
  have "\<bar>of_int k / 100 - X\<bar> \<le> \<bar>of_int k / 100 - b\<bar> + \<bar>b - X\<bar>" by simp
  with kb bX show ?thesis by simp
qed

lemma no_overshoot:
  fixes k N :: int and t :: nat
  assumes t: "0 < t" "t \<le> 2 ^ 36"
    and close: "\<bar>of_int k - of_int N / of_nat t\<bar> \<le> (1 / 2 + 1 / 2 ^ 38 :: rat)"
  shows "\<bar>of_int k - of_int N / of_nat t\<bar> \<le> (1 / 2 :: rat)"
proof -
  define D where "D = k * int t - N"
  have tpos: "(0::rat) < of_nat t" using t(1) by simp
  have eq: "(of_int k :: rat) - of_int N / of_nat t = of_int D / of_nat t"
    using tpos by (simp add: D_def field_simps)
  have absD: "\<bar>(of_int D :: rat) / of_nat t\<bar> = of_int \<bar>D\<bar> / of_nat t"
    using tpos by simp
  have "2 * \<bar>D\<bar> \<le> int t"
  proof (rule ccontr)
    assume "\<not> 2 * \<bar>D\<bar> \<le> int t"
    then have "int t + 1 \<le> 2 * \<bar>D\<bar>" by simp
    then have "(of_int (int t + 1) :: rat) \<le> of_int (2 * \<bar>D\<bar>)"
      by (simp only: of_int_le_iff)
    then have "(of_nat t + 1 :: rat) \<le> 2 * of_int \<bar>D\<bar>" by simp
    then have "(of_nat t + 1) / (2 * of_nat t) \<le> (2 * of_int \<bar>D\<bar> :: rat) / (2 * of_nat t)"
      using tpos by (intro divide_right_mono) simp_all
    then have "(of_nat t + 1) / (2 * of_nat t) \<le> (of_int \<bar>D\<bar> :: rat) / of_nat t"
      by simp
    moreover have "(of_nat t + 1) / (2 * of_nat t) = (1 / 2 + 1 / (2 * of_nat t) :: rat)"
      using tpos by (simp add: add_divide_distrib)
    moreover have "(1 :: rat) / 2 ^ 37 \<le> 1 / (2 * of_nat t)"
    proof -
      have "(of_nat t :: rat) \<le> of_nat (2 ^ 36)"
        using t(2) by (simp only: of_nat_le_iff)
      then have "2 * (of_nat t :: rat) \<le> 2 ^ 37" by simp
      then show ?thesis using tpos by (intro divide_left_mono) simp_all
    qed
    ultimately have lower: "(1 / 2 + 1 / 2 ^ 37 :: rat) \<le> of_int \<bar>D\<bar> / of_nat t"
      by linarith
    have upper: "(of_int \<bar>D\<bar> :: rat) / of_nat t \<le> 1 / 2 + 1 / 2 ^ 38"
      using close unfolding eq absD .
    from lower upper have "(1 / 2 + 1 / 2 ^ 37 :: rat) \<le> 1 / 2 + 1 / 2 ^ 38"
      by (rule order_trans)
    then show False by simp
  qed
  then have "(of_int (2 * \<bar>D\<bar>) :: rat) \<le> of_int (int t)"
    by (simp only: of_int_le_iff)
  then have "(2 * of_int \<bar>D\<bar> :: rat) \<le> of_nat t" by simp
  then have "(of_int \<bar>D\<bar> :: rat) \<le> (1 / 2) * of_nat t" by simp
  then have "(of_int \<bar>D\<bar> :: rat) / of_nat t \<le> 1 / 2"
    using tpos by (simp add: pos_divide_le_eq)
  with eq absD show ?thesis by simp
qed


lemma exact_rate_bounds:
  assumes "t \<noteq> 0" and "u \<le> t"
  shows "0 \<le> exact_rate t u" and "exact_rate t u \<le> 100"
proof -
  let ?q = "of_int (int t - int u) / of_int (int t) :: rat"
  have er: "exact_rate t u = ?q * 100"
    using assms(1) by (simp add: exact_rate_def)
  have q0: "0 \<le> ?q"
    using assms by simp
  have q1: "?q \<le> 1"
    using assms by (simp add: divide_le_eq_1)
  from q0 have "0 \<le> ?q * 100"
    by (rule mult_nonneg_nonneg) simp
  then show "0 \<le> exact_rate t u" by (simp only: er)
  from q1 have "?q * 100 \<le> 1 * 100"
    by (rule mult_right_mono) simp
  then have "?q * 100 \<le> 100" by (simp only: mult_1)
  then show "exact_rate t u \<le> 100" by (simp only: er)
qed

lemma exact_rate_fraction:
  assumes "t \<noteq> 0"
  shows "exact_rate t u * 100 = of_int (10000 * (int t - int u)) / of_nat t"
  using assms by (simp add: exact_rate_def)

lemma rounded_rate_near:
  assumes "t \<noteq> 0"
  shows "\<bar>of_int (rne (completion_rate t u * 100)) / 100 - exact_rate t u\<bar>
         \<le> 1 / 200 + \<bar>exact_rate t u\<bar> / 2 ^ 51"
  using completion_rate_error [OF assms, of u] rne_error [of "completion_rate t u * 100"]
  by (rule hundredth_error)

lemma rounded_rate_nearest:
  assumes t: "t \<noteq> 0" "t \<le> 2 ^ 36" and u: "u \<le> t"
  shows "\<bar>of_int (rne (completion_rate t u * 100)) - exact_rate t u * 100\<bar> \<le> (1 / 2 :: rat)"
proof -
  let ?b = "completion_rate t u"
  let ?X = "exact_rate t u"
  let ?k = "rne (?b * 100)"
  have X: "\<bar>?X\<bar> \<le> 100"
    using exact_rate_bounds [OF t(1) u] by simp
  have "\<bar>?b - ?X\<bar> \<le> \<bar>?X\<bar> * 3 / 2 ^ 53"
    using t(1) by (rule completion_rate_error)
  also have "\<dots> \<le> 100 * 3 / 2 ^ 53"
    using X by (intro divide_right_mono mult_right_mono) simp_all
  finally have bX: "\<bar>?b - ?X\<bar> \<le> 300 / 2 ^ 53" by simp
  have "?b * 100 - ?X * 100 = 100 * (?b - ?X)" by (simp add: algebra_simps)
  then have "\<bar>?b * 100 - ?X * 100\<bar> = 100 * \<bar>?b - ?X\<bar>"
    by (simp only: abs_scale_100)
  with bX have "\<bar>?b * 100 - ?X * 100\<bar> \<le> 100 * (300 / 2 ^ 53)" by simp
  also have "(100 * (300 / 2 ^ 53) :: rat) \<le> 1 / 2 ^ 38" by simp
  finally have prod: "\<bar>?b * 100 - ?X * 100\<bar> \<le> 1 / 2 ^ 38" .
  have "of_int ?k - ?X * 100 = (of_int ?k - ?b * 100) + (?b * 100 - ?X * 100)" by simp
  then have "\<bar>of_int ?k - ?X * 100\<bar> \<le> \<bar>of_int ?k - ?b * 100\<bar> + \<bar>?b * 100 - ?X * 100\<bar>"
    by (simp only: abs_triangle_ineq)
  with rne_error [of "?b * 100"] prod
  have "\<bar>of_int ?k - ?X * 100\<bar> \<le> 1 / 2 + 1 / 2 ^ 38" by linarith
  then have "\<bar>of_int ?k - of_int (10000 * (int t - int u)) / of_nat t\<bar>
             \<le> (1 / 2 + 1 / 2 ^ 38 :: rat)"
    by (simp only: exact_rate_fraction [OF t(1)])
  with t have "\<bar>of_int ?k - of_int (10000 * (int t - int u)) / of_nat t\<bar> \<le> (1 / 2 :: rat)"
    by (intro no_overshoot) simp_all
  then show ?thesis
    by (simp only: exact_rate_fraction [OF t(1)])
qed

lemma half_away_is_tie:
  fixes y :: rat
  assumes "\<bar>of_int k - y\<bar> = 1 / 2"
  shows "frac y = 1 / 2"
proof -
  from assms consider "y = of_int k + 1 / 2" | "y = of_int (k - 1) + 1 / 2"
    by (auto simp: abs_if split: if_splits)
  then show ?thesis
  proof cases
    case 1
    then have "\<lfloor>y\<rfloor> = k" by (simp add: floor_unique)
    with 1 show ?thesis by (simp add: frac_def)
  next
    case 2
    then have "\<lfloor>y\<rfloor> = k - 1" by (intro floor_unique) simp_all
    with 2 show ?thesis by (simp add: frac_def)
  qed
qed

lemma rounded_rate_is_spec:
  assumes t: "t \<noteq> 0" "t \<le> 2 ^ 36" and u: "u \<le> t" and tie: "\<not> rounding_tie t u"
  shows "py_round2 (completion_rate t u) = to_double (spec_completion_rate t u)"
proof -
  let ?k = "rne (completion_rate t u * 100)"
  have le: "\<bar>of_int ?k - exact_rate t u * 100\<bar> \<le> (1 / 2 :: rat)"
    using t u by (rule rounded_rate_nearest)
  have "\<bar>of_int ?k - exact_rate t u * 100\<bar> \<noteq> (1 / 2 :: rat)"
    using tie half_away_is_tie [of ?k "exact_rate t u * 100"]
    by (auto simp: rounding_tie_def)
  with le have "\<bar>of_int ?k - exact_rate t u * 100\<bar> < (1 / 2 :: rat)" by simp
  then have "rne (exact_rate t u * 100) = ?k" by (rule rne_unique)
  then show ?thesis
    by (simp add: py_round2_def spec_completion_rate_def)
qed

subsection \<open>A staff with failed enrollments\<close>

lemma failed_enrollments_nth:
  assumes "i < m"
  shows "failed_enrollments m ! i = sample_enrollment (int i) ''Failed'' None"
  using assms by (simp add: failed_enrollments_def)

lemma failed_enrollments_untrained:
  "untrained_set env (failed_enrollments m) [''Security101''] = Inr (int ` {..<m})"
proof -
  have "\<forall>e \<in> set (failed_enrollments m). \<not> malformed_due_date (strptime env) [''Security101''] e"
    by (auto simp: failed_enrollments_def malformed_due_date_def sample_enrollment_def)
  then obtain S where S: "untrained_set env (failed_enrollments m) [''Security101''] = Inr S"
    using untrained_set_returns_iff [of env "failed_enrollments m" "[''Security101'']"] by blast
  have "S = spec_untrained_ids env (failed_enrollments m) [''Security101'']"
    using S by (rule untrained_set_eq)
  also have "\<dots> = (\<lambda>i. enr_user_id (failed_enrollments m ! i)) ` {..<m}"
  proof -
    have "{i \<in> {..<length (failed_enrollments m)}.
            campaign_name (failed_enrollments m ! i) \<in> set [''Security101''] \<and>
            spec_untrained_rule (strptime env) (now_at env i) (failed_enrollments m ! i)}
          = {..<m}"
      by (auto simp: failed_enrollments_def sample_enrollment_def spec_untrained_rule_def
            due_date_present_def)
    then show ?thesis by (simp only: spec_untrained_ids_def)
  qed
  also have "\<dots> = int ` {..<m}"
    by (rule image_cong) (simp_all add: failed_enrollments_nth sample_enrollment_def)
  finally show ?thesis using S by simp
qed

lemma failed_enrollments_metrics:
  "map_sum id report_metrics
     (analyse_training_data env [] (staff n) (failed_enrollments m) [''Security101'']) =
   Inr \<lparr>Total_Users = n, Total_Untrained_Users = m,
         Completion_Rate = py_round2 (completion_rate n m)\<rparr>"
proof -
  have "card (int ` {..<m}) = m"
    by (simp add: card_image)
  then show ?thesis
    by (simp add: analyse_training_data_def failed_enrollments_untrained build_report_def
          staff_def)
qed

lemma rate_160_73: "py_round2 (completion_rate 160 73) = to_double (5437 / 100)"
  by code_simp

lemma rate_160_67: "py_round2 (completion_rate 160 67) = to_double (5813 / 100)"
  by code_simp

lemma rate_3_1: "py_round2 (completion_rate 3 1) = 4691484174324859 / 2 ^ 46"
  by code_simp

lemma exact_160_73:
  "exact_rate 160 73 = 54375 / 1000" "spec_completion_rate 160 73 = 5438 / 100"
  by code_simp+

lemma exact_160_67:
  "exact_rate 160 67 = 58125 / 1000" "spec_completion_rate 160 67 = 5812 / 100"
  by code_simp+

lemma doubles_differ:
  "to_double (5437 / 100) \<noteq> to_double (5438 / 100)"
  "to_double (5437 / 100) \<noteq> 5438 / 100"
  by code_simp+

text \<open>
  The same with 67 untrained users: the exact rate 58.125 is rounded up, to the float
  nearest to 58.13, where the tie rule gives 58.12.
\<close>

lemma tie_rounded_up:
  "map_sum id report_metrics
     (analyse_training_data sample_env [] (staff 160) (failed_enrollments 67)
        [''Security101'']) =
   Inr \<lparr>Total_Users = 160, Total_Untrained_Users = 67,
         Completion_Rate = to_double (5813 / 100)\<rparr>"
  by (simp only: failed_enrollments_metrics rate_160_67)

text \<open>
  C7, at sample data: 160 users, 73 of them untrained. The exact rate is 54.375, which
  rounded to 2 decimal places is 54.38. The code computes the product as a float just
  below 54.375 and rounds that: the Completion Rate is the float nearest to 54.37.
\<close>

theorem completion_rate_tie_rounded_down:
  "map_sum id report_metrics
     (analyse_training_data sample_env [] (staff 160) (failed_enrollments 73)
        [''Security101'']) =
   Inr \<lparr>Total_Users = 160, Total_Untrained_Users = 73,
         Completion_Rate = to_double (5437 / 100)\<rparr> \<and>
   exact_rate 160 73 = 54375 / 1000 \<and>
   spec_completion_rate 160 73 = 5438 / 100 \<and>
   to_double (5437 / 100) \<noteq> to_double (spec_completion_rate 160 73) \<and>
   to_double (5437 / 100) \<noteq> spec_completion_rate 160 73"
  by (simp only: failed_enrollments_metrics rate_160_73 exact_160_73 doubles_differ)
     simp

text \<open>
  C7, as the code has it. In every report that \<^verbatim>\<open>analyse_training_data\<close> returns, Total
  Users is the length of the users list, duplicates included, and Total Untrained Users
  is the number of elements of the untrained set, which is the set of ids the
  classification rule marks. The Completion Rate is 0 when Total Users is 0. Otherwise
  it is the float nearest to a number \<open>k/100\<close> with two decimals that differs from the
  exact rate \<open>X = (Total Users - Total Untrained Users) / Total Users \<times> 100\<close> by at most
  \<open>0.005 + |X| / 2^51\<close>. When Total Untrained Users is at most Total Users and Total
  Users at most \<open>2^36\<close>, that number is within 0.005 of \<open>X\<close>, and unless \<open>X\<close> lies
  halfway between two multiples of 0.01 the Completion Rate is the float nearest to \<open>X\<close>
  rounded to 2 decimal places.
\<close>

theorem metrics_of_report:
  assumes "analyse_training_data env opt_fields users es mc = Inr r"
  shows "Total_Users (report_metrics r) = length users \<and>
         untrained_set env es mc = Inr (spec_untrained_ids env es mc) \<and>
         Total_Untrained_Users (report_metrics r) = card (spec_untrained_ids env es mc) \<and>
         (Total_Users (report_metrics r) = 0 \<longrightarrow> Completion_Rate (report_metrics r) = 0) \<and>
         (Total_Users (report_metrics r) \<noteq> 0 \<longrightarrow>
            (\<exists>k. Completion_Rate (report_metrics r) = to_double (of_int k / 100) \<and>
                 \<bar>of_int k / 100 -
                    exact_rate (Total_Users (report_metrics r))
                      (Total_Untrained_Users (report_metrics r))\<bar>
                 \<le> 1 / 200 +
                    \<bar>exact_rate (Total_Users (report_metrics r))
                       (Total_Untrained_Users (report_metrics r))\<bar> / 2 ^ 51 \<and>
                 (Total_Untrained_Users (report_metrics r) \<le> Total_Users (report_metrics r) \<and>
                  Total_Users (report_metrics r) \<le> 2 ^ 36 \<longrightarrow>
                    \<bar>of_int k / 100 -
                       exact_rate (Total_Users (report_metrics r))
                         (Total_Untrained_Users (report_metrics r))\<bar> \<le> 1 / 200 \<and>
                    (\<not> rounding_tie (Total_Users (report_metrics r))
                          (Total_Untrained_Users (report_metrics r)) \<longrightarrow>
                       Completion_Rate (report_metrics r) =
                         to_double (spec_completion_rate (Total_Users (report_metrics r))
                                      (Total_Untrained_Users (report_metrics r)))))))"
proof -
  from assms obtain S where S: "untrained_set env es mc = Inr S"
    and r: "r = build_report env opt_fields users S"
    by (rule analyse_training_data_Inr)
  have eq: "S = spec_untrained_ids env es mc"
    using S by (rule untrained_set_eq)
  define t where "t = length users"
  define u where "u = card S"
  have T: "Total_Users (report_metrics r) = t"
    and U: "Total_Untrained_Users (report_metrics r) = u"
    and R: "Completion_Rate (report_metrics r) = py_round2 (completion_rate t u)"
    by (simp_all add: r build_report_def t_def u_def)
  have zero: "t = 0 \<longrightarrow> py_round2 (completion_rate t u) = 0"
    by (simp add: completion_rate_def py_round2_0)
  have rounded: "t \<noteq> 0 \<longrightarrow>
      (\<exists>k. py_round2 (completion_rate t u) = to_double (of_int k / 100) \<and>
           \<bar>of_int k / 100 - exact_rate t u\<bar> \<le> 1 / 200 + \<bar>exact_rate t u\<bar> / 2 ^ 51 \<and>
           (u \<le> t \<and> t \<le> 2 ^ 36 \<longrightarrow>
              \<bar>of_int k / 100 - exact_rate t u\<bar> \<le> 1 / 200 \<and>
              (\<not> rounding_tie t u \<longrightarrow>
                 py_round2 (completion_rate t u) = to_double (spec_completion_rate t u))))"
  proof
    assume t: "t \<noteq> 0"
    let ?k = "rne (completion_rate t u * 100)"
    have a: "py_round2 (completion_rate t u) = to_double (of_int ?k / 100)"
      by (simp add: py_round2_def)
    have b: "\<bar>of_int ?k / 100 - exact_rate t u\<bar> \<le> 1 / 200 + \<bar>exact_rate t u\<bar> / 2 ^ 51"
      using t by (rule rounded_rate_near)
    have c: "u \<le> t \<and> t \<le> 2 ^ 36 \<longrightarrow>
              \<bar>of_int ?k / 100 - exact_rate t u\<bar> \<le> 1 / 200 \<and>
              (\<not> rounding_tie t u \<longrightarrow>
                 py_round2 (completion_rate t u) = to_double (spec_completion_rate t u))"
    proof (intro impI conjI)
      assume h: "u \<le> t \<and> t \<le> 2 ^ 36"
      then have "\<bar>of_int ?k - exact_rate t u * 100\<bar> \<le> (1 / 2 :: rat)"
        using t by (intro rounded_rate_nearest) simp_all
      moreover have "of_int ?k / 100 - exact_rate t u = (of_int ?k - exact_rate t u * 100) / 100"
        by (simp add: diff_divide_distrib)
      ultimately show "\<bar>of_int ?k / 100 - exact_rate t u\<bar> \<le> 1 / 200"
        by (simp only: abs_divide)
      assume "\<not> rounding_tie t u"
      with t h show "py_round2 (completion_rate t u) = to_double (spec_completion_rate t u)"
        by (intro rounded_rate_is_spec) simp_all
    qed
    from a b c show "\<exists>k. py_round2 (completion_rate t u) = to_double (of_int k / 100) \<and>
           \<bar>of_int k / 100 - exact_rate t u\<bar> \<le> 1 / 200 + \<bar>exact_rate t u\<bar> / 2 ^ 51 \<and>
           (u \<le> t \<and> t \<le> 2 ^ 36 \<longrightarrow>
              \<bar>of_int k / 100 - exact_rate t u\<bar> \<le> 1 / 200 \<and>
              (\<not> rounding_tie t u \<longrightarrow>
                 py_round2 (completion_rate t u) = to_double (spec_completion_rate t u)))"
      by blast
  qed
  have first: "Total_Users (report_metrics r) = length users"
    by (simp add: T t_def)
  have second: "untrained_set env es mc = Inr (spec_untrained_ids env es mc)"
    using S eq by simp
  have third: "Total_Untrained_Users (report_metrics r) = card (spec_untrained_ids env es mc)"
    using eq by (simp add: U u_def)
  from first second third zero rounded show ?thesis
    unfolding T U R by (intro conjI)
qed

lemma no_tie_3_1: "\<not> rounding_tie 3 1"
  by code_simp

lemma spec_rate_3_1: "spec_completion_rate 3 1 = 6667 / 100"
  by code_simp

lemma double_6667: "to_double (6667 / 100) = 4691484174324859 / 2 ^ 46"
  by code_simp

theorem metrics_of_report_witness:
  "analyse_training_data sample_env [] (staff 3) (failed_enrollments 1) [''Security101''] =
     Inr (build_report sample_env [] (staff 3) (int ` {..<1})) \<and>
   Total_Users (report_metrics (build_report sample_env [] (staff 3) (int ` {..<1}))) = 3 \<and>
   Total_Untrained_Users (report_metrics (build_report sample_env [] (staff 3) (int ` {..<1}))) = 1 \<and>
   (3::nat) \<noteq> 0 \<and> (1::nat) \<le> 3 \<and> (3::nat) \<le> 2 ^ 36 \<and> \<not> rounding_tie 3 1 \<and>
   spec_completion_rate 3 1 = 6667 / 100 \<and>
   Completion_Rate (report_metrics (build_report sample_env [] (staff 3) (int ` {..<1}))) =
     to_double (spec_completion_rate 3 1) \<and>
   Completion_Rate (report_metrics (build_report sample_env [] (staff 3) (int ` {..<1}))) =
     4691484174324859 / 2 ^ 46"
proof -
  let ?r = "build_report sample_env [] (staff 3) (int ` {..<1})"
  have a: "analyse_training_data sample_env [] (staff 3) (failed_enrollments 1)
             [''Security101''] = Inr ?r"
    by (simp add: analyse_training_data_def failed_enrollments_untrained)
  note inst = metrics_of_report [OF a]
  have T: "Total_Users (report_metrics ?r) = 3"
    using inst by (simp add: staff_def)
  have "card (int ` {..<m}) = m" for m
    by (simp add: card_image)
  from this [of 1] have U: "Total_Untrained_Users (report_metrics ?r) = 1"
    by (simp add: build_report_def)
  have side: "(3::nat) \<noteq> 0" "(1::nat) \<le> 3" "(3::nat) \<le> 2 ^ 36"
    by simp_all
  from inst side no_tie_3_1
  have R: "Completion_Rate (report_metrics ?r) = to_double (spec_completion_rate 3 1)"
    unfolding T U by blast
  then have R2: "Completion_Rate (report_metrics ?r) = 4691484174324859 / 2 ^ 46"
    by (simp only: spec_rate_3_1 double_6667)
  from a T U side no_tie_3_1 spec_rate_3_1 R R2 show ?thesis
    by (intro conjI)
qed

end
